theory Spec2Isabelle
  imports Complex_Main "HOL-Library.Word" "HOL-Library.AList"
begin

section \<open>Data model\<close>

text \<open>
  The blob-trigger function of \<^verbatim>\<open>src/function_app.py\<close> validates an uploaded file,
  moves it to the \<^verbatim>\<open>staging\<close> or the \<^verbatim>\<open>rejected\<close> container and persists a
  validation report. The model follows the source function by function.

  Python values: \<^verbatim>\<open>bytes\<close> is a list of 8-bit words; a decoded \<^verbatim>\<open>str\<close> is the
  list of its code points; blob paths, sheet names and column labels are
  \<open>string\<close>s; unbounded integers that count something are \<open>nat\<close>.
  \<^verbatim>\<open>len(content) / (1024 * 1024)\<close> is a rational: the division of an integer below
  \<open>2^53\<close> by \<open>2^20\<close> is exact in binary floating point, so the comparisons of the
  source with an integer ceiling are the comparisons of the rationals.
\<close>

type_synonym byte = "8 word"
type_synonym bytes = "byte list"
type_synonym pystr = "nat list"

text \<open>An exception is its class, as far as the handlers of the source tell classes
  apart, and \<^verbatim>\<open>str(e)\<close>.\<close>

datatype exn_class = UnicodeDecodeError | ParserError | JSONDecodeError | OtherException

datatype exn = Exn exn_class string

fun class_of :: "exn \<Rightarrow> exn_class" where
  "class_of (Exn c m) = c"

fun str_of :: "exn \<Rightarrow> string" where
  "str_of (Exn c m) = m"

text \<open>
  Every f-string appended to \<^verbatim>\<open>errors\<close> or \<^verbatim>\<open>warnings\<close> is one constructor, whose
  arguments are the interpolated values in the order of the f-string (the texts are
  quoted without their accents):
  \<^item> \<open>UnsupportedExtension ext\<close>: \<^verbatim>\<open>Extensao nao suportada: .{extension}\<close>;
  \<^item> \<open>InternalError s\<close>: \<^verbatim>\<open>Erro interno: {str(e)}\<close>;
  \<^item> \<open>CsvUnreadable\<close>: \<^verbatim>\<open>Nao foi possivel ler o CSV com encodings suportados\<close>;
  \<^item> \<open>CsvParseError s\<close>: \<^verbatim>\<open>Erro ao parsear CSV: {str(e)}\<close>;
  \<^item> \<open>CsvTooManyRows max rows\<close>, \<open>CsvTooManyColumns max cols\<close>:
    \<^verbatim>\<open>CSV excede limite de {max} linhas|colunas ({n} encontradas)\<close>;
  \<^item> \<open>CsvDuplicateColumns names\<close>: \<^verbatim>\<open>Colunas duplicadas encontradas: {duplicated_cols[:5]}\<close>;
  \<^item> \<open>CsvEmptyRows n\<close>: \<^verbatim>\<open>{empty_rows} linhas completamente vazias encontradas\<close>;
  \<^item> \<open>ExcelCorrupt s\<close>: \<^verbatim>\<open>Arquivo Excel corrompido ou ilegivel: {str(e)}\<close>;
  \<^item> \<open>ExcelTooManySheets max n\<close>: \<^verbatim>\<open>Excel excede limite de {max} abas ({n} encontradas)\<close>;
  \<^item> \<open>SheetTooManyColumns sheet max cols\<close>: \<^verbatim>\<open>Aba "{sheet}" excede {max} colunas ({cols})\<close>;
  \<^item> \<open>SheetReadError sheet s\<close>: \<^verbatim>\<open>Erro ao ler aba "{sheet}": {str(e)}\<close> (a warning);
  \<^item> \<open>ExcelTooManyRows total max\<close>: \<^verbatim>\<open>Total de linhas ({total}) excede o limite ({max})\<close>;
  \<^item> \<open>JsonTooLarge max mb\<close>, \<open>ParquetTooLarge max mb\<close>, \<open>TxtTooLarge max mb\<close>:
    \<^verbatim>\<open>... excede limite de {max}MB ({size_mb:.1f}MB)\<close>;
  \<^item> \<open>JsonBadEncoding s\<close>: \<^verbatim>\<open>Encoding nao suportado: {str(e)}\<close>;
    \<open>JsonInvalid s\<close>: \<^verbatim>\<open>JSON invalido: {str(e)}\<close>;
  \<^item> \<open>ParquetInvalid s\<close>: \<^verbatim>\<open>Parquet invalido ou corrompido: {str(e)}\<close>;
    \<open>TxtBadEncoding\<close>: \<^verbatim>\<open>Encoding nao suportado\<close>;
  \<^item> the \<open>Db...\<close> constructors are the messages of the variant in
    \<^verbatim>\<open>src/azure-function/function_app.py\<close>.
\<close>

datatype message =
    UnsupportedExtension string
  | InternalError string
  | CsvUnreadable
  | CsvParseError string
  | CsvTooManyRows nat nat
  | CsvTooManyColumns nat nat
  | CsvDuplicateColumns "string list"
  | CsvEmptyRows nat
  | ExcelCorrupt string
  | ExcelTooManySheets nat nat
  | SheetTooManyColumns string nat nat
  | SheetReadError string string
  | ExcelTooManyRows nat nat
  | JsonTooLarge nat rat
  | JsonBadEncoding string
  | JsonInvalid string
  | ParquetTooLarge nat rat
  | ParquetInvalid string
  | TxtTooLarge nat rat
  | TxtBadEncoding
  | DbExcelCorrupt string
  | DbTooManySheets nat nat
  | DbFirstSheetError string
  | DbTooManyRows nat nat
  | DbTooManyColumns nat nat

record sheet_info =
  sheet_rows :: nat
  sheet_columns :: nat
  sheet_column_names :: "string list"

text \<open>Each validator replaces \<^verbatim>\<open>result['metadata']\<close> by a dict of a fixed shape.\<close>

datatype metadata =
    MetaEmpty
  | MetaCsv string nat nat "string list" "(string \<times> string) list" rat rat
  | MetaExcel nat "string list" nat "(string \<times> sheet_info) list"
  | MetaJsonArray nat "pystr list"
  | MetaJsonObject "pystr list"
  | MetaParquet nat nat "string list" "(string \<times> string) list"
  | MetaTxt nat nat string
  | MetaExcelDb nat "string list" nat nat "string list"

record report =
  blob_name :: string
  client :: string
  filename :: string
  extension :: string
  size_bytes :: nat
  size_mb :: rat
  timestamp :: string
  valid :: bool
  errors :: "message list"
  warnings :: "message list"
  metadata :: metadata

subsection \<open>The rule registry\<close>

record table_rules =
  max_rows :: nat
  max_columns :: nat

record csv_rules = table_rules +
  required_encoding :: "string list"

record xlsx_rules = table_rules +
  max_sheets :: nat

record size_rules =
  max_size_mb :: nat

definition VALIDATION_RULES_csv :: csv_rules where
  "VALIDATION_RULES_csv =
     \<lparr>max_rows = 10000000, max_columns = 500,
      required_encoding = [''utf-8'', ''latin-1'', ''iso-8859-1'']\<rparr>"

definition VALIDATION_RULES_xlsx :: xlsx_rules where
  "VALIDATION_RULES_xlsx = \<lparr>max_rows = 1048576, max_columns = 500, max_sheets = 50\<rparr>"

definition VALIDATION_RULES_json :: size_rules where
  "VALIDATION_RULES_json = \<lparr>max_size_mb = 200\<rparr>"

definition VALIDATION_RULES_parquet :: size_rules where
  "VALIDATION_RULES_parquet = \<lparr>max_size_mb = 500\<rparr>"

definition VALIDATION_RULES_txt :: size_rules where
  "VALIDATION_RULES_txt = \<lparr>max_size_mb = 100\<rparr>"

subsection \<open>Decoding bytes\<close>

text \<open>
  \<^verbatim>\<open>bytes.decode('utf-8')\<close> is strict: continuation bytes are \<open>0x80..0xBF\<close>, overlong
  forms, surrogates and code points above \<open>0x10FFFF\<close> are refused.
  \<^verbatim>\<open>bytes.decode('latin-1')\<close> maps every byte to the code point of the same
  number and cannot fail.
\<close>

definition cont_byte :: "nat \<Rightarrow> bool" where
  "cont_byte b = (128 \<le> b \<and> b \<le> 191)"

definition second_of3 :: "nat \<Rightarrow> nat \<Rightarrow> bool" where
  "second_of3 b0 b1 =
     (if b0 = 224 then 160 \<le> b1 \<and> b1 \<le> 191
      else if b0 = 237 then 128 \<le> b1 \<and> b1 \<le> 159
      else cont_byte b1)"

definition second_of4 :: "nat \<Rightarrow> nat \<Rightarrow> bool" where
  "second_of4 b0 b1 =
     (if b0 = 240 then 144 \<le> b1 \<and> b1 \<le> 191
      else if b0 = 244 then 128 \<le> b1 \<and> b1 \<le> 143
      else cont_byte b1)"

fun utf8_points :: "nat list \<Rightarrow> nat list option" where
  "utf8_points [] = Some []"
| "utf8_points (b0 # bs) =
     (if b0 < 128 then map_option ((#) b0) (utf8_points bs)
      else if 194 \<le> b0 \<and> b0 \<le> 223 then
        (case bs of
           b1 # r1 \<Rightarrow>
             if cont_byte b1
             then map_option ((#) ((b0 - 192) * 64 + (b1 - 128))) (utf8_points r1)
             else None
         | [] \<Rightarrow> None)
      else if 224 \<le> b0 \<and> b0 \<le> 239 then
        (case bs of
           b1 # b2 # r2 \<Rightarrow>
             if second_of3 b0 b1 \<and> cont_byte b2
             then map_option
                    ((#) ((b0 - 224) * 4096 + (b1 - 128) * 64 + (b2 - 128)))
                    (utf8_points r2)
             else None
         | _ \<Rightarrow> None)
      else if 240 \<le> b0 \<and> b0 \<le> 244 then
        (case bs of
           b1 # b2 # b3 # r3 \<Rightarrow>
             if second_of4 b0 b1 \<and> cont_byte b2 \<and> cont_byte b3
             then map_option
                    ((#) ((b0 - 240) * 262144 + (b1 - 128) * 4096
                          + (b2 - 128) * 64 + (b3 - 128)))
                    (utf8_points r3)
             else None
         | _ \<Rightarrow> None)
      else None)"

definition decode_utf8 :: "bytes \<Rightarrow> exn + pystr" where
  "decode_utf8 content =
     (case utf8_points (map unat content) of
        Some t \<Rightarrow> Inr t
      | None \<Rightarrow> Inl (Exn UnicodeDecodeError ''utf-8 codec cannot decode''))"

definition decode_latin1 :: "bytes \<Rightarrow> exn + pystr" where
  "decode_latin1 content = Inr (map unat content)"

subsection \<open>pandas and json\<close>

text \<open>
  What the source observes of a \<^verbatim>\<open>DataFrame\<close>: its column labels and, per row, its
  cells (\<open>None\<close> is a null cell). \<^verbatim>\<open>df.shape\<close> is the number of rows and the number
  of labels.
\<close>

record frame =
  columns :: "string list"
  cells :: "string option list list"

definition shape :: "frame \<Rightarrow> nat \<times> nat" where
  "shape df = (length (cells df), length (columns df))"

text \<open>\<^verbatim>\<open>columns[columns.duplicated()].tolist()\<close>: every label that occurred before, in
  order (\<^verbatim>\<open>keep='first'\<close>).\<close>

fun duplicated_from :: "string list \<Rightarrow> string list \<Rightarrow> string list" where
  "duplicated_from seen [] = []"
| "duplicated_from seen (c # cs) =
     (if c \<in> set seen then c # duplicated_from seen cs
      else duplicated_from (c # seen) cs)"

definition duplicated_cols :: "frame \<Rightarrow> string list" where
  "duplicated_cols df = duplicated_from [] (columns df)"

text \<open>\<^verbatim>\<open>df.isnull().all(axis=1).sum()\<close>: the number of rows whose cells are all null.\<close>

definition empty_rows :: "frame \<Rightarrow> nat" where
  "empty_rows df = length (filter (list_all Option.is_none) (cells df))"

text \<open>\<^verbatim>\<open>pd.read_excel(xls, sheet_name=...)\<close> takes a sheet by its name or by its position.\<close>

datatype sheet_ref = ByName string | ByIndex nat

record workbook =
  sheet_names :: "string list"
  read_excel :: "sheet_ref \<Rightarrow> exn + frame"

datatype json =
    JNull
  | JBool bool
  | JNumber rat
  | JString pystr
  | JArray "json list"
  | JObject "(pystr \<times> json) list"

text \<open>
  The parsers are library code: the model takes them as functions of their arguments,
  each returning a value or the exception it raises. \<^verbatim>\<open>frame_dtypes\<close>,
  \<^verbatim>\<open>null_percentage\<close> and \<^verbatim>\<open>memory_usage_mb\<close> are the three statistics of a frame that
  the source copies into the metadata as pandas and float arithmetic compute them.
\<close>

record lib =
  read_csv :: "bytes \<Rightarrow> string \<Rightarrow> nat option \<Rightarrow> exn + frame"
  ExcelFile :: "bytes \<Rightarrow> exn + workbook"
  read_parquet :: "bytes \<Rightarrow> exn + frame"
  json_loads :: "pystr \<Rightarrow> exn + json"
  frame_dtypes :: "frame \<Rightarrow> (string \<times> string) list"
  null_percentage :: "frame \<Rightarrow> rat"
  memory_usage_mb :: "frame \<Rightarrow> rat"

subsection \<open>Library calls\<close>

text \<open>
  The validators record every decode and parse call they make, in order, next to the
  report: a validator returns the exception it raised (if any), the report dict as it
  left it, and the calls.
\<close>

datatype libcall =
    CallDecodeUtf8
  | CallDecodeLatin1
  | CallJsonLoads
  | CallReadCsv string "nat option"
  | CallExcelFile
  | CallReadExcel sheet_ref
  | CallReadParquet

type_synonym vresult = "exn option \<times> report \<times> libcall list"

subsection \<open>String methods\<close>

text \<open>\<^verbatim>\<open>s.replace(old, new)\<close> replaces the occurrences of \<open>old\<close> from left to right,
  without overlap.\<close>

fun replace_from :: "string \<Rightarrow> string \<Rightarrow> string \<Rightarrow> string" where
  "replace_from old new [] = []"
| "replace_from old new (c # cs) =
     (if old \<noteq> [] \<and> take (length old) (c # cs) = old
      then new @ replace_from old new (drop (length old) (c # cs))
      else c # replace_from old new cs)"

definition py_replace :: "string \<Rightarrow> string \<Rightarrow> string \<Rightarrow> string" where
  "py_replace old new s =
     (if old = [] then new @ concat (map (\<lambda>c. c # new) s) else replace_from old new s)"

text \<open>\<^verbatim>\<open>s.split(sep)\<close> for a one-character separator: never an empty list.\<close>

fun split_on :: "char \<Rightarrow> string \<Rightarrow> string list" where
  "split_on sep [] = [[]]"
| "split_on sep (c # cs) =
     (if c = sep then [] # split_on sep cs
      else (case split_on sep cs of
              w # ws \<Rightarrow> (c # w) # ws
            | [] \<Rightarrow> [[c]]))"

text \<open>\<^verbatim>\<open>str.lower\<close> on the characters a \<open>char\<close> holds: A to Z, and the capital letters
  of latin-1.\<close>

definition lower_char :: "char \<Rightarrow> char" where
  "lower_char c =
     (let n = (of_char c :: nat)
      in if (65 \<le> n \<and> n \<le> 90) \<or> (192 \<le> n \<and> n \<le> 222 \<and> n \<noteq> 215)
         then char_of (n + 32) else c)"

definition lower :: "string \<Rightarrow> string" where
  "lower s = map lower_char s"

text \<open>\<^verbatim>\<open>round(x, 2)\<close>: to the nearest hundredth, a tie to the even one.\<close>

definition round_half_even :: "rat \<Rightarrow> int" where
  "round_half_even x =
     (let f = \<lfloor>x\<rfloor>; d = x - of_int f
      in if d < 1 / 2 then f
         else if d > 1 / 2 then f + 1
         else if even f then f else f + 1)"

definition round2 :: "rat \<Rightarrow> rat" where
  "round2 x = of_int (round_half_even (x * 100)) / 100"

section \<open>Validators\<close>

definition size_in_mb :: "bytes \<Rightarrow> rat" where
  "size_in_mb content = of_nat (length content) / (1024 * 1024)"

subsection \<open>Plain text\<close>

definition validate_txt :: "bytes \<Rightarrow> report \<Rightarrow> vresult" where
  "validate_txt content result =
     (let rules = VALIDATION_RULES_txt;
          size_mb = size_in_mb content
      in if size_mb > of_nat (max_size_mb rules)
         then (None,
               result\<lparr>errors := errors result @ [TxtTooLarge (max_size_mb rules) size_mb]\<rparr>,
               [])
         else
           (case decode_utf8 content of
              Inr t \<Rightarrow>
                (None,
                 result\<lparr>metadata := MetaTxt (count_list t 10 + 1) (length t) ''utf-8''\<rparr>,
                 [CallDecodeUtf8])
            | Inl e \<Rightarrow>
                if class_of e \<noteq> UnicodeDecodeError
                then (Some e, result, [CallDecodeUtf8])
                else
                  (case decode_latin1 content of
                     Inr t \<Rightarrow>
                       (None,
                        result\<lparr>metadata :=
                                 MetaTxt (count_list t 10 + 1) (length t) ''utf-8''\<rparr>,
                        [CallDecodeUtf8, CallDecodeLatin1])
                   | Inl e' \<Rightarrow>
                       (None,
                        result\<lparr>errors := errors result @ [TxtBadEncoding]\<rparr>,
                        [CallDecodeUtf8, CallDecodeLatin1]))))"

subsection \<open>Delimited text\<close>

text \<open>
  The loop over \<^verbatim>\<open>rules['required_encoding']\<close>: a bounded parse (\<^verbatim>\<open>nrows=5\<close>) per
  encoding, stopping at the first that returns. \<^verbatim>\<open>UnicodeDecodeError\<close> and
  \<^verbatim>\<open>ParserError\<close> move on to the next encoding; any other exception leaves the
  validator.
\<close>

fun detect_encoding ::
  "lib \<Rightarrow> bytes \<Rightarrow> string list \<Rightarrow> (exn + string option) \<times> libcall list" where
  "detect_encoding L content [] = (Inr None, [])"
| "detect_encoding L content (enc # encs) =
     (case read_csv L content enc (Some 5) of
        Inr df \<Rightarrow> (Inr (Some enc), [CallReadCsv enc (Some 5)])
      | Inl e \<Rightarrow>
          if class_of e = UnicodeDecodeError \<or> class_of e = ParserError
          then (case detect_encoding L content encs of
                  (r, calls) \<Rightarrow> (r, CallReadCsv enc (Some 5) # calls))
          else (Inl e, [CallReadCsv enc (Some 5)]))"

definition validate_csv :: "lib \<Rightarrow> bytes \<Rightarrow> report \<Rightarrow> vresult" where
  "validate_csv L content result =
     (let rules = VALIDATION_RULES_csv
      in case detect_encoding L content (required_encoding rules) of
           (Inl e, calls) \<Rightarrow> (Some e, result, calls)
         | (Inr None, calls) \<Rightarrow>
             (None, result\<lparr>errors := errors result @ [CsvUnreadable]\<rparr>, calls)
         | (Inr (Some encoding_used), calls) \<Rightarrow>
             (case read_csv L content encoding_used None of
                Inl e \<Rightarrow>
                  (None,
                   result\<lparr>errors := errors result @ [CsvParseError (str_of e)]\<rparr>,
                   calls @ [CallReadCsv encoding_used None])
              | Inr df_full \<Rightarrow>
                  (case shape df_full of
                     (rows, cols) \<Rightarrow>
                       (let result1 =
                              (if rows > max_rows rules
                               then result\<lparr>errors := errors result
                                              @ [CsvTooManyRows (max_rows rules) rows]\<rparr>
                               else result);
                            result2 =
                              (if cols > max_columns rules
                               then result1\<lparr>errors := errors result1
                                               @ [CsvTooManyColumns (max_columns rules) cols]\<rparr>
                               else result1);
                            dups = duplicated_cols df_full;
                            result3 =
                              (if dups \<noteq> []
                               then result2\<lparr>warnings := warnings result2
                                               @ [CsvDuplicateColumns (take 5 dups)]\<rparr>
                               else result2);
                            n_empty = empty_rows df_full;
                            result4 =
                              (if n_empty > 0
                               then result3\<lparr>warnings := warnings result3
                                               @ [CsvEmptyRows n_empty]\<rparr>
                               else result3)
                        in (None,
                            result4\<lparr>metadata :=
                                      MetaCsv encoding_used rows cols
                                        (take 50 (columns df_full))
                                        (frame_dtypes L df_full)
                                        (null_percentage L df_full)
                                        (memory_usage_mb L df_full)\<rparr>,
                            calls @ [CallReadCsv encoding_used None])))))"

text \<open>
  What \<^verbatim>\<open>pandas.read_csv\<close> returns on the plainest tables: ASCII text whose lines all
  end in a newline, a header of alphabetic names and rows of decimal integers, each as
  long as the header. The reader renames a repeated header name: the second \<^verbatim>\<open>X\<close>
  becomes \<^verbatim>\<open>X.1\<close>, the third \<^verbatim>\<open>X.2\<close>. No cell of such a table is null. Any other
  input is outside this description (\<open>None\<close>).
\<close>

fun decimal :: "nat \<Rightarrow> string" where
  "decimal n =
     (if n < 10 then [char_of (48 + n)]
      else decimal (n div 10) @ [char_of (48 + n mod 10)])"

fun mangle_dupe_cols :: "string list \<Rightarrow> string list \<Rightarrow> string list" where
  "mangle_dupe_cols seen [] = []"
| "mangle_dupe_cols seen (c # cs) =
     (if count_list seen c = 0 then c else c @ ''.'' @ decimal (count_list seen c))
     # mangle_dupe_cols (c # seen) cs"

definition is_alpha :: "char \<Rightarrow> bool" where
  "is_alpha c =
     (let n = (of_char c :: nat) in (65 \<le> n \<and> n \<le> 90) \<or> (97 \<le> n \<and> n \<le> 122))"

definition is_digit :: "char \<Rightarrow> bool" where
  "is_digit c = (let n = (of_char c :: nat) in 48 \<le> n \<and> n \<le> 57)"

definition plain_table :: "bytes \<Rightarrow> frame option" where
  "plain_table content =
     (case split_on (CHR 0x0A) (map (\<lambda>b. char_of (unat b)) content) of
        [] \<Rightarrow> None
      | header # rest \<Rightarrow>
          (let names = split_on CHR '','' header;
               body = map (split_on CHR '','') (butlast rest)
           in if list_all (\<lambda>b. unat b < 128) content
                 \<and> rest \<noteq> [] \<and> last rest = []
                 \<and> list_all (\<lambda>n. n \<noteq> [] \<and> list_all is_alpha n) names
                 \<and> list_all (\<lambda>r. length r = length names
                                  \<and> list_all (\<lambda>c. c \<noteq> [] \<and> list_all is_digit c) r) body
              then Some \<lparr>columns = mangle_dupe_cols [] names,
                         cells = map (map Some) body\<rparr>
              else None))"

subsection \<open>Spreadsheet\<close>

text \<open>
  The loop over the sheets carries \<^verbatim>\<open>total_rows\<close>, \<^verbatim>\<open>sheets_info\<close> (a dict, in
  insertion order) and the report. A sheet that fails to read adds a warning and
  leaves the counters alone.
\<close>

fun read_sheets ::
  "xlsx_rules \<Rightarrow> workbook \<Rightarrow> string list
   \<Rightarrow> nat \<times> (string \<times> sheet_info) list \<times> report \<times> libcall list
   \<Rightarrow> nat \<times> (string \<times> sheet_info) list \<times> report \<times> libcall list" where
  "read_sheets rules xls [] acc = acc"
| "read_sheets rules xls (sheet # rest) (total_rows, sheets_info, result, calls) =
     (case read_excel xls (ByName sheet) of
        Inr df \<Rightarrow>
          (case shape df of
             (rows, cols) \<Rightarrow>
               read_sheets rules xls rest
                 (total_rows + rows,
                  AList.update sheet
                    \<lparr>sheet_rows = rows, sheet_columns = cols,
                     sheet_column_names = take 20 (columns df)\<rparr>
                    sheets_info,
                  (if cols > max_columns rules
                   then result\<lparr>errors := errors result
                                  @ [SheetTooManyColumns sheet (max_columns rules) cols]\<rparr>
                   else result),
                  calls @ [CallReadExcel (ByName sheet)]))
      | Inl e \<Rightarrow>
          read_sheets rules xls rest
            (total_rows, sheets_info,
             result\<lparr>warnings := warnings result @ [SheetReadError sheet (str_of e)]\<rparr>,
             calls @ [CallReadExcel (ByName sheet)]))"

definition validate_excel :: "lib \<Rightarrow> bytes \<Rightarrow> report \<Rightarrow> vresult" where
  "validate_excel L content result =
     (let rules = VALIDATION_RULES_xlsx
      in case ExcelFile L content of
           Inl e \<Rightarrow>
             (None, result\<lparr>errors := errors result @ [ExcelCorrupt (str_of e)]\<rparr>,
              [CallExcelFile])
         | Inr xls \<Rightarrow>
             if length (sheet_names xls) > max_sheets rules
             then (None,
                   result\<lparr>errors := errors result
                            @ [ExcelTooManySheets (max_sheets rules) (length (sheet_names xls))]\<rparr>,
                   [CallExcelFile])
             else
               (case read_sheets rules xls (sheet_names xls) (0, [], result, [CallExcelFile]) of
                  (total_rows, sheets_info, result1, calls) \<Rightarrow>
                    (None,
                     (if total_rows > max_rows rules
                      then result1\<lparr>errors := errors result1
                                       @ [ExcelTooManyRows total_rows (max_rows rules)]\<rparr>
                      else result1)
                       \<lparr>metadata := MetaExcel (length (sheet_names xls)) (sheet_names xls)
                                      total_rows sheets_info\<rparr>,
                     calls)))"

text \<open>
  \<^verbatim>\<open>validate_excel\<close> of \<^verbatim>\<open>src/azure-function/function_app.py\<close>, the variant that loads
  the table into a database: it reads the first sheet only and returns the frame next
  to the report.
\<close>

definition validate_excel_db ::
  "lib \<Rightarrow> bytes \<Rightarrow> report \<Rightarrow> (report \<times> frame option) \<times> libcall list" where
  "validate_excel_db L content result =
     (let rules = VALIDATION_RULES_xlsx
      in case ExcelFile L content of
           Inl e \<Rightarrow>
             ((result\<lparr>errors := errors result @ [DbExcelCorrupt (str_of e)]\<rparr>, None),
              [CallExcelFile])
         | Inr xls \<Rightarrow>
             if length (sheet_names xls) > max_sheets rules
             then ((result\<lparr>errors := errors result
                             @ [DbTooManySheets (max_sheets rules) (length (sheet_names xls))]\<rparr>,
                    None),
                   [CallExcelFile])
             else
               (case read_excel xls (ByIndex 0) of
                  Inl e \<Rightarrow>
                    ((result\<lparr>errors := errors result @ [DbFirstSheetError (str_of e)]\<rparr>, None),
                     [CallExcelFile, CallReadExcel (ByIndex 0)])
                | Inr df \<Rightarrow>
                    (case shape df of
                       (rows, cols) \<Rightarrow>
                         ((result\<lparr>errors := errors result
                                    @ (if rows > max_rows rules
                                       then [DbTooManyRows (max_rows rules) rows] else [])
                                    @ (if cols > max_columns rules
                                       then [DbTooManyColumns (max_columns rules) cols] else []),
                                  metadata :=
                                    MetaExcelDb (length (sheet_names xls)) (sheet_names xls)
                                      rows cols (take 50 (columns df))\<rparr>,
                           Some df),
                          [CallExcelFile, CallReadExcel (ByIndex 0)]))))"

subsection \<open>JSON\<close>

fun json_metadata :: "json \<Rightarrow> metadata option" where
  "json_metadata (JArray data) =
     Some (MetaJsonArray (length data)
       (case data of
          JObject kvs # rest \<Rightarrow> take 20 (map fst kvs)
        | _ \<Rightarrow> []))"
| "json_metadata (JObject kvs) = Some (MetaJsonObject (take 20 (map fst kvs)))"
| "json_metadata other = None"

definition json_success :: "report \<Rightarrow> json \<Rightarrow> report" where
  "json_success result data =
     (case json_metadata data of
        Some m \<Rightarrow> result\<lparr>metadata := m\<rparr>
      | None \<Rightarrow> result)"

text \<open>
  The outer \<^verbatim>\<open>try\<close> holds the UTF-8 decode and \<^verbatim>\<open>json.loads\<close>; its handlers are tried
  in the order of the source (\<^verbatim>\<open>UnicodeDecodeError\<close>, then \<^verbatim>\<open>JSONDecodeError\<close>), and
  an exception of another class leaves the validator.
\<close>

definition validate_json :: "lib \<Rightarrow> bytes \<Rightarrow> report \<Rightarrow> vresult" where
  "validate_json L content result =
     (let rules = VALIDATION_RULES_json;
          size_mb = size_in_mb content
      in if size_mb > of_nat (max_size_mb rules)
         then (None,
               result\<lparr>errors := errors result @ [JsonTooLarge (max_size_mb rules) size_mb]\<rparr>,
               [])
         else
           (case (case decode_utf8 content of
                    Inl e \<Rightarrow> (Inl e, [CallDecodeUtf8])
                  | Inr t \<Rightarrow> (json_loads L t, [CallDecodeUtf8, CallJsonLoads])) of
              (Inr data, calls) \<Rightarrow> (None, json_success result data, calls)
            | (Inl e, calls) \<Rightarrow>
                if class_of e = UnicodeDecodeError then
                  (case (case decode_latin1 content of
                           Inl e' \<Rightarrow> (Inl e', [CallDecodeLatin1])
                         | Inr t \<Rightarrow> (json_loads L t, [CallDecodeLatin1, CallJsonLoads])) of
                     (Inr data, calls') \<Rightarrow> (None, json_success result data, calls @ calls')
                   | (Inl e', calls') \<Rightarrow>
                       (None,
                        result\<lparr>errors := errors result @ [JsonBadEncoding (str_of e')]\<rparr>,
                        calls @ calls'))
                else if class_of e = JSONDecodeError then
                  (None, result\<lparr>errors := errors result @ [JsonInvalid (str_of e)]\<rparr>, calls)
                else (Some e, result, calls)))"

subsection \<open>Parquet\<close>

definition validate_parquet :: "lib \<Rightarrow> bytes \<Rightarrow> report \<Rightarrow> vresult" where
  "validate_parquet L content result =
     (let rules = VALIDATION_RULES_parquet;
          size_mb = size_in_mb content
      in if size_mb > of_nat (max_size_mb rules)
         then (None,
               result\<lparr>errors := errors result
                        @ [ParquetTooLarge (max_size_mb rules) size_mb]\<rparr>,
               [])
         else
           (case read_parquet L content of
              Inr df \<Rightarrow>
                (case shape df of
                   (rows, cols) \<Rightarrow>
                     (None,
                      result\<lparr>metadata := MetaParquet rows cols (take 50 (columns df))
                                           (frame_dtypes L df)\<rparr>,
                      [CallReadParquet]))
            | Inl e \<Rightarrow>
                (None, result\<lparr>errors := errors result @ [ParquetInvalid (str_of e)]\<rparr>,
                 [CallReadParquet])))"

section \<open>Blob operations\<close>

text \<open>
  The object store holds, per container and blob name, either an uploaded object with
  its tags or a serialised report. Every call to the store may raise: \<open>fault\<close> names,
  per call site of the source, the exception raised there in this run, if any. The
  clock is read three times (report creation, upload tags, report path). Logging,
  \<^verbatim>\<open>json.dumps\<close> of the report and the clock do not raise.
\<close>

record tags =
  validation_status :: string
  validated_at :: string
  original_path :: string

datatype stored = Object bytes tags | ReportJson report

record store =
  containers :: "string set"
  blobs :: "string \<times> string \<Rightarrow> stored option"

datatype store_site =
    MoveConnect | MoveCreateContainer | MoveUpload | MoveDelete
  | SaveConnect | SaveCreateContainer | SaveUpload

datatype store_op =
    OpConnect
  | OpCreateContainer string
  | OpUpload string string
  | OpDelete string string

datatype level = INFO | WARNING | ERROR

datatype logmsg =
    TriggerDetected string nat
  | FileValid string
  | FileRejected string "message list"
  | ProcessingFailed string string
  | DemoMove string string
  | BlobMoved string string string
  | MoveFailed string
  | DemoReport report
  | ReportSaved string
  | SaveFailed string

datatype event =
    BlobRead
  | Lib libcall
  | CallMoveBlob string
  | CallSaveReport report
  | Store store_op
  | Log level logmsg

record env =
  library :: lib
  CONNECTION_STRING :: "string option"
  now_created :: string
  now_moved :: string
  today_saved :: string
  fault :: "store_site \<Rightarrow> exn option"

definition STAGING_CONTAINER :: string where
  "STAGING_CONTAINER = ''staging''"

definition REJECTED_CONTAINER :: string where
  "REJECTED_CONTAINER = ''rejected''"

definition NOTIFICATIONS_CONTAINER :: string where
  "NOTIFICATIONS_CONTAINER = ''notifications''"

text \<open>\<^verbatim>\<open>not CONNECTION_STRING\<close>: the variable is unset or empty.\<close>

definition no_connection :: "env \<Rightarrow> bool" where
  "no_connection E =
     (case CONNECTION_STRING E of None \<Rightarrow> True | Some c \<Rightarrow> c = [])"

subsection \<open>move_blob\<close>

definition move_blob_try ::
  "env \<Rightarrow> bytes \<Rightarrow> string \<Rightarrow> string \<Rightarrow> report \<Rightarrow> store
   \<Rightarrow> exn option \<times> store \<times> event list" where
  "move_blob_try E content path destination_container meta s =
     (case fault E MoveConnect of
        Some e \<Rightarrow> (Some e, s, [Store OpConnect])
      | None \<Rightarrow>
          (let s1 = (case fault E MoveCreateContainer of
                       Some e \<Rightarrow> s
                     | None \<Rightarrow>
                         s\<lparr>containers := insert destination_container (containers s)\<rparr>);
               dest_blob_name = py_replace ''uploads-clientes/'' [] path;
               ev1 = [Store OpConnect, Store (OpCreateContainer destination_container),
                      Store (OpUpload destination_container dest_blob_name)]
           in case fault E MoveUpload of
                Some e \<Rightarrow> (Some e, s1, ev1)
              | None \<Rightarrow>
                  (let s2 = s1\<lparr>blobs := (blobs s1)
                              ((destination_container, dest_blob_name) \<mapsto>
                                 Object content
                                   \<lparr>validation_status =
                                      (if valid meta then ''valid'' else ''rejected''),
                                    validated_at = now_moved E,
                                    original_path = path\<rparr>)\<rparr>;
                       original_container = ''uploads-clientes'';
                       original_blob = py_replace (original_container @ ''/'') [] path;
                       ev2 = ev1 @ [Store (OpDelete original_container original_blob)]
                   in case fault E MoveDelete of
                        Some e \<Rightarrow> (Some e, s2, ev2)
                      | None \<Rightarrow>
                          (None,
                           s2\<lparr>blobs := (blobs s2)
                                ((original_container, original_blob) := None)\<rparr>,
                           ev2 @ [Log INFO
                                    (BlobMoved path destination_container dest_blob_name)]))))"

text \<open>The \<^verbatim>\<open>try\<close> of \<^verbatim>\<open>move_blob\<close> has one handler, \<^verbatim>\<open>except Exception\<close>, which logs
  and returns.\<close>

definition move_blob ::
  "env \<Rightarrow> bytes \<Rightarrow> string \<Rightarrow> string \<Rightarrow> report \<Rightarrow> store
   \<Rightarrow> exn option \<times> store \<times> event list" where
  "move_blob E content path destination_container meta s =
     (if no_connection E
      then (None, s, [Log INFO (DemoMove destination_container path)])
      else (case move_blob_try E content path destination_container meta s of
              (None, s', evs) \<Rightarrow> (None, s', evs)
            | (Some e, s', evs) \<Rightarrow> (None, s', evs @ [Log ERROR (MoveFailed (str_of e))])))"

subsection \<open>save_validation_report\<close>

definition report_name :: "env \<Rightarrow> report \<Rightarrow> string" where
  "report_name E result =
     client result @ ''/'' @ today_saved E @ ''/'' @ filename result @ ''_report.json''"

definition save_report_try ::
  "env \<Rightarrow> report \<Rightarrow> store \<Rightarrow> exn option \<times> store \<times> event list" where
  "save_report_try E result s =
     (case fault E SaveConnect of
        Some e \<Rightarrow> (Some e, s, [Store OpConnect])
      | None \<Rightarrow>
          (let s1 = (case fault E SaveCreateContainer of
                       Some e \<Rightarrow> s
                     | None \<Rightarrow>
                         s\<lparr>containers := insert NOTIFICATIONS_CONTAINER (containers s)\<rparr>);
               ev1 = [Store OpConnect, Store (OpCreateContainer NOTIFICATIONS_CONTAINER),
                      Store (OpUpload NOTIFICATIONS_CONTAINER (report_name E result))]
           in case fault E SaveUpload of
                Some e \<Rightarrow> (Some e, s1, ev1)
              | None \<Rightarrow>
                  (None,
                   s1\<lparr>blobs := (blobs s1)
                        ((NOTIFICATIONS_CONTAINER, report_name E result) \<mapsto>
                           ReportJson result)\<rparr>,
                   ev1 @ [Log INFO (ReportSaved (report_name E result))])))"

definition save_validation_report ::
  "env \<Rightarrow> report \<Rightarrow> store \<Rightarrow> exn option \<times> store \<times> event list" where
  "save_validation_report E result s =
     (if no_connection E
      then (None, s, [Log INFO (DemoReport result)])
      else (case save_report_try E result s of
              (None, s', evs) \<Rightarrow> (None, s', evs)
            | (Some e, s', evs) \<Rightarrow> (None, s', evs @ [Log ERROR (SaveFailed (str_of e))])))"

section \<open>The trigger function\<close>

record input_stream =
  stream_name :: string
  stream_length :: nat
  stream_read :: "exn + bytes"

record run =
  final_report :: report
  final_store :: store
  trace :: "event list"
  raised :: "exn option"

definition new_report :: "env \<Rightarrow> input_stream \<Rightarrow> report" where
  "new_report E blob =
     (let parts = split_on CHR ''/'' (py_replace ''uploads-clientes/'' [] (stream_name blob));
          client_prefix = (case parts of [] \<Rightarrow> ''unknown'' | p # ps \<Rightarrow> p);
          fname = (if length parts > 0 then last parts else ''unknown'');
          ext = (if CHR ''.'' \<in> set fname then lower (last (split_on CHR ''.'' fname))
                 else [])
      in \<lparr>blob_name = stream_name blob,
          client = client_prefix,
          filename = fname,
          extension = ext,
          size_bytes = stream_length blob,
          size_mb = round2 (of_nat (stream_length blob) / (1024 * 1024)),
          timestamp = now_created E,
          valid = False,
          errors = [],
          warnings = [],
          metadata = MetaEmpty\<rparr>)"

definition dispatch :: "lib \<Rightarrow> bytes \<Rightarrow> report \<Rightarrow> vresult" where
  "dispatch L content result =
     (if extension result = ''csv'' then validate_csv L content result
      else if extension result = ''xlsx'' \<or> extension result = ''xls''
        then validate_excel L content result
      else if extension result = ''json'' then validate_json L content result
      else if extension result = ''parquet'' then validate_parquet L content result
      else if extension result = ''txt'' then validate_txt content result
      else (None,
            result\<lparr>errors := errors result @ [UnsupportedExtension (extension result)]\<rparr>,
            []))"

text \<open>The first half of the \<^verbatim>\<open>try\<close> block: read the blob, run the validator of the
  extension. It returns the exception raised (if any), the bytes read and the report.\<close>

definition validation_phase ::
  "lib \<Rightarrow> input_stream \<Rightarrow> report \<Rightarrow> exn option \<times> bytes \<times> report \<times> event list" where
  "validation_phase L blob result =
     (case stream_read blob of
        Inl e \<Rightarrow> (Some e, [], result, [BlobRead])
      | Inr content \<Rightarrow>
          (case dispatch L content result of
             (x, result1, calls) \<Rightarrow> (x, content, result1, BlobRead # map Lib calls)))"

text \<open>The second half: decide the destination, move the blob, save the report.\<close>

definition triage ::
  "env \<Rightarrow> bytes \<Rightarrow> string \<Rightarrow> report \<Rightarrow> store
   \<Rightarrow> exn option \<times> report \<times> store \<times> event list" where
  "triage E content name result s =
     (case (if errors result = []
            then (let result1 = result\<lparr>valid := True\<rparr>
                  in case move_blob E content name STAGING_CONTAINER result1 s of
                       (Some e, s1, evs) \<Rightarrow>
                         (Some e, result1, s1, CallMoveBlob STAGING_CONTAINER # evs)
                     | (None, s1, evs) \<Rightarrow>
                         (None, result1, s1,
                          CallMoveBlob STAGING_CONTAINER # evs @ [Log INFO (FileValid name)]))
            else (case move_blob E content name REJECTED_CONTAINER result s of
                    (Some e, s1, evs) \<Rightarrow>
                      (Some e, result, s1, CallMoveBlob REJECTED_CONTAINER # evs)
                  | (None, s1, evs) \<Rightarrow>
                      (None, result, s1,
                       CallMoveBlob REJECTED_CONTAINER # evs
                         @ [Log WARNING (FileRejected name (errors result))]))) of
        (Some e, result1, s1, evs) \<Rightarrow> (Some e, result1, s1, evs)
      | (None, result1, s1, evs) \<Rightarrow>
          (case save_validation_report E result1 s1 of
             (x, s2, evs2) \<Rightarrow> (x, result1, s2, evs @ CallSaveReport result1 # evs2)))"

definition try_block ::
  "env \<Rightarrow> input_stream \<Rightarrow> report \<Rightarrow> store \<Rightarrow> exn option \<times> report \<times> store \<times> event list" where
  "try_block E blob result s =
     (case validation_phase (library E) blob result of
        (Some e, content, result1, evs) \<Rightarrow> (Some e, result1, s, evs)
      | (None, content, result1, evs) \<Rightarrow>
          (case triage E content (stream_name blob) result1 s of
             (x, result2, s2, evs2) \<Rightarrow> (x, result2, s2, evs @ evs2)))"

definition process_uploaded_file :: "env \<Rightarrow> input_stream \<Rightarrow> store \<Rightarrow> run" where
  "process_uploaded_file E blob s =
     (let ev0 = [Log INFO (TriggerDetected (stream_name blob) (stream_length blob))]
      in case try_block E blob (new_report E blob) s of
           (None, result, s1, evs) \<Rightarrow>
             \<lparr>final_report = result, final_store = s1, trace = ev0 @ evs, raised = None\<rparr>
         | (Some e, result, s1, evs) \<Rightarrow>
             (let result1 = result\<lparr>errors := errors result @ [InternalError (str_of e)]\<rparr>
              in case save_validation_report E result1 s1 of
                   (x, s2, evs2) \<Rightarrow>
                     \<lparr>final_report = result1, final_store = s2,
                      trace = ev0 @ evs
                        @ [Log ERROR (ProcessingFailed (stream_name blob) (str_of e)),
                           CallSaveReport result1]
                        @ evs2,
                      raised = x\<rparr>))"

subsection \<open>Reading a trace\<close>

text \<open>The reports handed to \<^verbatim>\<open>save_validation_report\<close> and the destinations handed to
  \<^verbatim>\<open>move_blob\<close> in a run, in the order of the calls.\<close>

fun saved_reports :: "event list \<Rightarrow> report list" where
  "saved_reports [] = []"
| "saved_reports (CallSaveReport r # evs) = r # saved_reports evs"
| "saved_reports (ev # evs) = saved_reports evs"

fun move_calls :: "event list \<Rightarrow> string list" where
  "move_calls [] = []"
| "move_calls (CallMoveBlob d # evs) = d # move_calls evs"
| "move_calls (ev # evs) = move_calls evs"

section \<open>The per-sheet rules in the words of the specification\<close>

text \<open>
  What the specification says of one sheet of an opened workbook: the rows it adds to
  the total (none when it cannot be read), the warning of a read failure, the error of
  a column count above 500, and its entry in \<^verbatim>\<open>sheets_detail\<close>. These follow the
  specification, not \<^verbatim>\<open>validate_excel\<close>; the two are compared below.
\<close>

definition spec_sheet_rows :: "workbook \<Rightarrow> string \<Rightarrow> nat" where
  "spec_sheet_rows xls sheet =
     (case read_excel xls (ByName sheet) of Inr df \<Rightarrow> length (cells df) | Inl e \<Rightarrow> 0)"

definition spec_sheet_warning :: "workbook \<Rightarrow> string \<Rightarrow> message list" where
  "spec_sheet_warning xls sheet =
     (case read_excel xls (ByName sheet) of
        Inr df \<Rightarrow> []
      | Inl e \<Rightarrow> [SheetReadError sheet (str_of e)])"

definition spec_sheet_column_error :: "workbook \<Rightarrow> string \<Rightarrow> message list" where
  "spec_sheet_column_error xls sheet =
     (case read_excel xls (ByName sheet) of
        Inr df \<Rightarrow>
          if length (columns df) > 500
          then [SheetTooManyColumns sheet 500 (length (columns df))] else []
      | Inl e \<Rightarrow> [])"

definition spec_sheet_detail :: "workbook \<Rightarrow> string \<Rightarrow> sheet_info option" where
  "spec_sheet_detail xls sheet =
     (case read_excel xls (ByName sheet) of
        Inr df \<Rightarrow>
          Some \<lparr>sheet_rows = length (cells df), sheet_columns = length (columns df),
                sheet_column_names = take 20 (columns df)\<rparr>
      | Inl e \<Rightarrow> None)"


definition spec_total_rows :: "workbook \<Rightarrow> nat" where
  "spec_total_rows xls = sum_list (map (spec_sheet_rows xls) (sheet_names xls))"

section \<open>Concrete inputs\<close>

text \<open>A library in which every parser raises, a report as the trigger function builds
  it, and inputs at the limits of the rule registry.\<close>

definition failing_lib :: lib where
  "failing_lib =
     \<lparr>read_csv = (\<lambda>content enc nrows. Inl (Exn ParserError ''no table'')),
      ExcelFile = (\<lambda>content. Inl (Exn OtherException ''no workbook'')),
      read_parquet = (\<lambda>content. Inl (Exn OtherException ''no parquet'')),
      json_loads = (\<lambda>t. Inl (Exn JSONDecodeError ''no json'')),
      frame_dtypes = (\<lambda>df. map (\<lambda>c. (c, ''int64'')) (columns df)),
      null_percentage = (\<lambda>df. 0),
      memory_usage_mb = (\<lambda>df. 0)\<rparr>"

definition fresh_report :: report where
  "fresh_report =
     \<lparr>blob_name = ''uploads-clientes/acme/2024/01/02/data'',
      client = ''acme'', filename = ''data'', extension = [],
      size_bytes = 0, size_mb = 0, timestamp = ''2024-01-02T03:04:05+00:00'',
      valid = False, errors = [], warnings = [], metadata = MetaEmpty\<rparr>"

definition wide_workbook :: workbook where
  "wide_workbook =
     \<lparr>sheet_names = map decimal [0..<51],
      read_excel = (\<lambda>ref. Inr \<lparr>columns = [''a''], cells = [[Some ''1'']]\<rparr>)\<rparr>"

definition mixed_workbook :: workbook where
  "mixed_workbook =
     \<lparr>sheet_names = [''ok'', ''broken'', ''wide'', ''more''],
      read_excel = (\<lambda>ref.
        if ref = ByName ''ok''
          then Inr \<lparr>columns = [''a''], cells = replicate 1048576 [Some ''1'']\<rparr>
        else if ref = ByName ''wide''
          then Inr \<lparr>columns = replicate 501 ''c'', cells = [replicate 501 None]\<rparr>
        else if ref = ByName ''more''
          then Inr \<lparr>columns = [''a''], cells = [[Some ''1'']]\<rparr>
        else Inl (Exn OtherException ''bad sheet''))\<rparr>"

definition big_frame :: frame where
  "big_frame = \<lparr>columns = replicate 501 ''c'', cells = replicate 10000001 []\<rparr>"

definition latin1_lib :: lib where
  "latin1_lib =
     failing_lib\<lparr>read_csv := \<lambda>content enc nrows.
       if enc = ''utf-8'' then Inl (Exn UnicodeDecodeError ''invalid start byte'')
       else Inr big_frame\<rparr>"

definition repeated_header_csv :: bytes where
  "repeated_header_csv =
     [0x61, 0x2C, 0x61, 0x2C, 0x62, 0x0A, 0x31, 0x2C, 0x32, 0x2C, 0x33, 0x0A]"

definition plain_lib :: lib where
  "plain_lib =
     failing_lib\<lparr>read_csv := \<lambda>content enc nrows.
       case plain_table content of
         Some df \<Rightarrow> Inr df
       | None \<Rightarrow> Inl (Exn ParserError ''not a plain table'')\<rparr>"

definition working_env :: env where
  "working_env =
     \<lparr>library = failing_lib,
      CONNECTION_STRING = Some ''UseDevelopmentStorage=true'',
      now_created = ''2024-01-02T03:04:05+00:00'',
      now_moved = ''2024-01-02T03:04:06+00:00'',
      today_saved = ''2024/01/02'',
      fault = (\<lambda>site. None)\<rparr>"

definition upload_fault_env :: env where
  "upload_fault_env =
     working_env\<lparr>fault := \<lambda>site.
       if site = MoveUpload then Some (Exn OtherException ''upload refused'') else None\<rparr>"


definition notes_blob :: input_stream where
  "notes_blob =
     \<lparr>stream_name = ''uploads-clientes/acme/2024/01/02/notes.txt'',
      stream_length = 2,
      stream_read = Inr [0x68, 0x69]\<rparr>"


definition uploaded_store :: store where
  "uploaded_store =
     \<lparr>containers = {''uploads-clientes''},
      blobs = [(''uploads-clientes'', ''acme/2024/01/02/notes.txt'') \<mapsto>
                 Object [0x68, 0x69]
                   \<lparr>validation_status = [], validated_at = [], original_path = []\<rparr>]\<rparr>"

definition notes_report :: report where
  "notes_report =
     \<lparr>blob_name = ''uploads-clientes/acme/2024/01/02/notes.txt'',
      client = ''acme'', filename = ''notes.txt'', extension = ''txt'',
      size_bytes = 2, size_mb = 0, timestamp = ''2024-01-02T03:04:05+00:00'',
      valid = False, errors = [], warnings = [], metadata = MetaEmpty\<rparr>"


definition big_json :: input_stream where
  "big_json =
     \<lparr>stream_name = ''uploads-clientes/acme/2024/01/02/big.JSON'',
      stream_length = 209715201,
      stream_read = Inr (replicate 209715201 0)\<rparr>"

definition wide_xlsx :: input_stream where
  "wide_xlsx =
     \<lparr>stream_name = ''uploads-clientes/acme/2024/01/02/wide.xlsx'',
      stream_length = 0,
      stream_read = Inr []\<rparr>"

definition workbook_env :: env where
  "workbook_env =
     working_env\<lparr>library := failing_lib\<lparr>ExcelFile := \<lambda>content. Inr wide_workbook\<rparr>\<rparr>"

section \<open>Lemmas\<close>

subsection \<open>Sizes\<close>

lemma size_in_mb_gt:
  "(size_in_mb content > of_nat m) = (length content > m * 1048576)"
proof -
  have "(of_nat m < (of_nat (length content) :: rat) / 1048576)
        = ((of_nat (m * 1048576) :: rat) < of_nat (length content))"
    by (simp add: pos_less_divide_eq)
  also have "\<dots> = (m * 1048576 < length content)"
    by (rule of_nat_less_iff)
  finally show ?thesis by (simp add: size_in_mb_def)
qed

lemma size_in_mb_gt_numeral:
  "(numeral k < size_in_mb content) = (numeral k * 1048576 < length content)"
  using size_in_mb_gt [of "numeral k" content] by simp

subsection \<open>The sheet loop\<close>

lemma read_sheets_acc:
  "\<exists>info'. read_sheets VALIDATION_RULES_xlsx xls names (tot, info, result, calls) =
     (tot + sum_list (map (spec_sheet_rows xls) names),
      info',
      result\<lparr>errors := errors result @ concat (map (spec_sheet_column_error xls) names),
             warnings := warnings result @ concat (map (spec_sheet_warning xls) names)\<rparr>,
      calls @ map (\<lambda>s. CallReadExcel (ByName s)) names)
     \<and> (\<forall>s. map_of info' s =
           (if s \<in> set names \<and> spec_sheet_detail xls s \<noteq> None
            then spec_sheet_detail xls s else map_of info s))"
proof (induction names arbitrary: tot info result calls)
  case Nil
  then show ?case by simp
next
  case (Cons sheet rest)
  show ?case
  proof (cases "read_excel xls (ByName sheet)")
    case (Inl e)
    obtain info' where
      "read_sheets VALIDATION_RULES_xlsx xls rest
         (tot, info, result\<lparr>warnings := warnings result @ [SheetReadError sheet (str_of e)]\<rparr>,
          calls @ [CallReadExcel (ByName sheet)]) =
       (tot + sum_list (map (spec_sheet_rows xls) rest), info',
        result\<lparr>warnings := warnings result @ [SheetReadError sheet (str_of e)]\<rparr>
          \<lparr>errors := errors (result\<lparr>warnings := warnings result @ [SheetReadError sheet (str_of e)]\<rparr>)
                     @ concat (map (spec_sheet_column_error xls) rest),
           warnings := warnings (result\<lparr>warnings := warnings result @ [SheetReadError sheet (str_of e)]\<rparr>)
                     @ concat (map (spec_sheet_warning xls) rest)\<rparr>,
        (calls @ [CallReadExcel (ByName sheet)]) @ map (\<lambda>s. CallReadExcel (ByName s)) rest)"
      and "\<forall>s. map_of info' s =
           (if s \<in> set rest \<and> spec_sheet_detail xls s \<noteq> None
            then spec_sheet_detail xls s else map_of info s)"
      using Cons.IH by blast
    moreover have "spec_sheet_rows xls sheet = 0"
      "spec_sheet_warning xls sheet = [SheetReadError sheet (str_of e)]"
      "spec_sheet_column_error xls sheet = []"
      "spec_sheet_detail xls sheet = None"
      using Inl
      by (simp_all add: spec_sheet_rows_def spec_sheet_warning_def
          spec_sheet_column_error_def spec_sheet_detail_def)
    ultimately show ?thesis
      using Inl by auto
  next
    case (Inr df)
    let ?r = "if length (columns df) > max_columns VALIDATION_RULES_xlsx
              then result\<lparr>errors := errors result
                     @ [SheetTooManyColumns sheet (max_columns VALIDATION_RULES_xlsx) (length (columns df))]\<rparr>
              else result"
    let ?i = "AList.update sheet
                \<lparr>sheet_rows = length (cells df), sheet_columns = length (columns df),
                 sheet_column_names = take 20 (columns df)\<rparr> info"
    obtain info' where
      "read_sheets VALIDATION_RULES_xlsx xls rest
         (tot + length (cells df), ?i, ?r, calls @ [CallReadExcel (ByName sheet)]) =
       (tot + length (cells df) + sum_list (map (spec_sheet_rows xls) rest), info',
        ?r\<lparr>errors := errors ?r @ concat (map (spec_sheet_column_error xls) rest),
           warnings := warnings ?r @ concat (map (spec_sheet_warning xls) rest)\<rparr>,
        (calls @ [CallReadExcel (ByName sheet)]) @ map (\<lambda>s. CallReadExcel (ByName s)) rest)"
      and "\<forall>s. map_of info' s =
           (if s \<in> set rest \<and> spec_sheet_detail xls s \<noteq> None
            then spec_sheet_detail xls s else map_of ?i s)"
      using Cons.IH by blast
    moreover have "spec_sheet_rows xls sheet = length (cells df)"
      "spec_sheet_warning xls sheet = []"
      "spec_sheet_column_error xls sheet =
         (if length (columns df) > 500
          then [SheetTooManyColumns sheet 500 (length (columns df))] else [])"
      "spec_sheet_detail xls sheet =
         Some \<lparr>sheet_rows = length (cells df), sheet_columns = length (columns df),
               sheet_column_names = take 20 (columns df)\<rparr>"
      using Inr
      by (simp_all add: spec_sheet_rows_def spec_sheet_warning_def
          spec_sheet_column_error_def spec_sheet_detail_def)
    ultimately show ?thesis
      using Inr by (auto simp: shape_def VALIDATION_RULES_xlsx_def update_conv')
  qed
qed



text \<open>
  The variant of \<^verbatim>\<open>src/azure-function/function_app.py\<close> has no sheet loop: it reads the
  first sheet only, and a failure to read it is an error that ends the validation.
\<close>

lemma validate_excel_db_first_sheet:
  assumes "ExcelFile L content = Inr xls"
    and "length (sheet_names xls) \<le> 50"
    and "read_excel xls (ByIndex 0) = Inl e"
  shows "validate_excel_db L content result =
           ((result\<lparr>errors := errors result @ [DbFirstSheetError (str_of e)]\<rparr>, None),
            [CallExcelFile, CallReadExcel (ByIndex 0)])"
  using assms by (simp add: validate_excel_db_def VALIDATION_RULES_xlsx_def)

subsection \<open>Delimited text\<close>

lemma detect_encoding_first:
  "read_csv L content enc (Some 5) = Inr df \<Longrightarrow>
   detect_encoding L content (enc # encs) = (Inr (Some enc), [CallReadCsv enc (Some 5)])"
  by simp

lemma validate_csv_parsed:
  assumes "detect_encoding L content (required_encoding VALIDATION_RULES_csv)
           = (Inr (Some enc), calls)"
    and "read_csv L content enc None = Inr df"
  shows "validate_csv L content result =
           (None,
            result\<lparr>errors := errors result
                     @ (if length (cells df) > 10000000
                        then [CsvTooManyRows 10000000 (length (cells df))] else [])
                     @ (if length (columns df) > 500
                        then [CsvTooManyColumns 500 (length (columns df))] else []),
                   warnings := warnings result
                     @ (if duplicated_cols df \<noteq> []
                        then [CsvDuplicateColumns (take 5 (duplicated_cols df))] else [])
                     @ (if empty_rows df > 0 then [CsvEmptyRows (empty_rows df)] else []),
                   metadata := MetaCsv enc (length (cells df)) (length (columns df))
                                 (take 50 (columns df)) (frame_dtypes L df)
                                 (null_percentage L df) (memory_usage_mb L df)\<rparr>,
            calls @ [CallReadCsv enc None])"
  using assms
  by (simp add: validate_csv_def shape_def Let_def VALIDATION_RULES_csv_def)

lemma plain_table_repeated_header:
  "plain_table repeated_header_csv =
     Some \<lparr>columns = [''a'', ''a.1'', ''b''], cells = [[Some ''1'', Some ''2'', Some ''3'']]\<rparr>"
  by code_simp

lemma csv_duplicate_labels_warn:
  assumes "detect_encoding L content (required_encoding VALIDATION_RULES_csv)
           = (Inr (Some enc), calls)"
    and "read_csv L content enc None = Inr df"
    and "columns df = [''a'', ''a'', ''b'']"
    and "empty_rows df = 0"
  shows "warnings (fst (snd (validate_csv L content result))) =
           warnings result @ [CsvDuplicateColumns [''a'']]"
  using assms(3,4)
  by (simp add: validate_csv_parsed [OF assms(1,2)] duplicated_cols_def)

subsection \<open>What the validators leave alone\<close>















subsection \<open>Traces\<close>

lemma saved_reports_append [simp]:
  "saved_reports (xs @ ys) = saved_reports xs @ saved_reports ys"
  by (induction xs rule: saved_reports.induct) simp_all

lemma move_calls_append [simp]:
  "move_calls (xs @ ys) = move_calls xs @ move_calls ys"
  by (induction xs rule: move_calls.induct) simp_all

lemma saved_reports_Lib [simp]: "saved_reports (map Lib calls) = []"
  by (induction calls) simp_all

lemma move_calls_Lib [simp]: "move_calls (map Lib calls) = []"
  by (induction calls) simp_all

lemma move_blob_try_events:
  "move_blob_try E content path dest meta s = (x, s', evs) \<Longrightarrow>
   saved_reports evs = [] \<and> move_calls evs = []"
  by (auto simp: move_blob_try_def Let_def split: option.splits)

lemma move_blob_quiet:
  "move_blob E content path dest meta s = (x, s', evs) \<Longrightarrow>
   x = None \<and> saved_reports evs = [] \<and> move_calls evs = []"
  by (auto simp: move_blob_def split: if_splits prod.splits option.splits
      dest: move_blob_try_events)

lemma save_report_try_events:
  "save_report_try E result s = (x, s', evs) \<Longrightarrow>
   saved_reports evs = [] \<and> move_calls evs = []"
  by (auto simp: save_report_try_def Let_def split: option.splits)

lemma save_validation_report_quiet:
  "save_validation_report E result s = (x, s', evs) \<Longrightarrow>
   x = None \<and> saved_reports evs = [] \<and> move_calls evs = []"
  by (auto simp: save_validation_report_def split: if_splits prod.splits option.splits
      dest: save_report_try_events)

lemma validation_phase_events:
  "validation_phase L blob result = (x, content, result1, evs) \<Longrightarrow>
   saved_reports evs = [] \<and> move_calls evs = []"
  by (auto simp: validation_phase_def split: sum.splits prod.splits)

subsection \<open>The trigger function, path by path\<close>

lemma new_report_fields:
  "errors (new_report E blob) = []" "warnings (new_report E blob) = []"
  "metadata (new_report E blob) = MetaEmpty" "valid (new_report E blob) = False"
  by (simp_all add: new_report_def Let_def)


lemma process_completed:
  assumes "validation_phase (library E) blob (new_report E blob) = (None, content, r1, evs)"
  defines "rf \<equiv> (if errors r1 = [] then r1\<lparr>valid := True\<rparr> else r1)"
    and "dest \<equiv> (if errors r1 = [] then STAGING_CONTAINER else REJECTED_CONTAINER)"
  shows "final_report (process_uploaded_file E blob s) = rf"
    and "raised (process_uploaded_file E blob s) = None"
    and "saved_reports (trace (process_uploaded_file E blob s)) = [rf]"
    and "move_calls (trace (process_uploaded_file E blob s)) = [dest]"
    and "final_store (process_uploaded_file E blob s) =
           fst (snd (save_validation_report E rf
             (fst (snd (move_blob E content (stream_name blob) dest rf s)))))"
proof -
  obtain s1 ev1 where mv: "move_blob E content (stream_name blob) dest rf s = (None, s1, ev1)"
    and q1: "saved_reports ev1 = []" "move_calls ev1 = []"
    using move_blob_quiet [of E content "stream_name blob" dest rf s]
    by (cases "move_blob E content (stream_name blob) dest rf s") auto
  obtain s2 ev2 where sv: "save_validation_report E rf s1 = (None, s2, ev2)"
    and q2: "saved_reports ev2 = []" "move_calls ev2 = []"
    using save_validation_report_quiet [of E rf s1]
    by (cases "save_validation_report E rf s1") auto
  have q0: "saved_reports evs = []" "move_calls evs = []"
    using validation_phase_events [OF assms(1)] by simp_all
  have tri: "triage E content (stream_name blob) r1 s =
               (None, rf, s2,
                CallMoveBlob dest # ev1
                  @ [if errors r1 = [] then Log INFO (FileValid (stream_name blob))
                     else Log WARNING (FileRejected (stream_name blob) (errors r1))]
                  @ CallSaveReport rf # ev2)"
    using mv sv
    by (cases "errors r1 = []") (simp_all add: triage_def rf_def dest_def Let_def)
  have run: "process_uploaded_file E blob s =
               \<lparr>final_report = rf, final_store = s2,
                trace = [Log INFO (TriggerDetected (stream_name blob) (stream_length blob))]
                  @ evs @ CallMoveBlob dest # ev1
                  @ [if errors r1 = [] then Log INFO (FileValid (stream_name blob))
                     else Log WARNING (FileRejected (stream_name blob) (errors r1))]
                  @ CallSaveReport rf # ev2,
                raised = None\<rparr>"
    using assms(1) tri by (simp add: process_uploaded_file_def try_block_def)
  show "final_report (process_uploaded_file E blob s) = rf"
    and "raised (process_uploaded_file E blob s) = None"
    by (simp_all add: run)
  show "saved_reports (trace (process_uploaded_file E blob s)) = [rf]"
    by (simp add: run q0 q1 q2)
  show "move_calls (trace (process_uploaded_file E blob s)) = [dest]"
    by (simp add: run q0 q1 q2)
  show "final_store (process_uploaded_file E blob s) =
           fst (snd (save_validation_report E rf
             (fst (snd (move_blob E content (stream_name blob) dest rf s)))))"
    by (simp add: run mv sv)
qed

lemma process_failed:
  assumes "validation_phase (library E) blob (new_report E blob) = (Some e, content, r1, evs)"
  defines "rf \<equiv> r1\<lparr>errors := errors r1 @ [InternalError (str_of e)]\<rparr>"
  shows "final_report (process_uploaded_file E blob s) = rf"
    and "raised (process_uploaded_file E blob s) = None"
    and "saved_reports (trace (process_uploaded_file E blob s)) = [rf]"
    and "move_calls (trace (process_uploaded_file E blob s)) = []"
    and "final_store (process_uploaded_file E blob s) =
           fst (snd (save_validation_report E rf s))"
proof -
  obtain s2 ev2 where sv: "save_validation_report E rf s = (None, s2, ev2)"
    and q2: "saved_reports ev2 = []" "move_calls ev2 = []"
    using save_validation_report_quiet [of E rf s]
    by (cases "save_validation_report E rf s") auto
  have q0: "saved_reports evs = []" "move_calls evs = []"
    using validation_phase_events [OF assms(1)] by simp_all
  have run: "process_uploaded_file E blob s =
               \<lparr>final_report = rf, final_store = s2,
                trace = [Log INFO (TriggerDetected (stream_name blob) (stream_length blob))]
                  @ evs
                  @ [Log ERROR (ProcessingFailed (stream_name blob) (str_of e)),
                     CallSaveReport rf]
                  @ ev2,
                raised = None\<rparr>"
    using assms(1) sv by (simp add: process_uploaded_file_def try_block_def rf_def Let_def)
  show "final_report (process_uploaded_file E blob s) = rf"
    and "raised (process_uploaded_file E blob s) = None"
    by (simp_all add: run)
  show "saved_reports (trace (process_uploaded_file E blob s)) = [rf]"
    by (simp add: run q0 q2)
  show "move_calls (trace (process_uploaded_file E blob s)) = []"
    by (simp add: run q0 q2)
  show "final_store (process_uploaded_file E blob s) = fst (snd (save_validation_report E rf s))"
    by (simp add: run sv)
qed

lemma process_of_dispatch:
  assumes "stream_read blob = Inr content"
    and "dispatch (library E) content (new_report E blob) = (None, r1, calls)"
  shows "final_report (process_uploaded_file E blob s)
         = (if errors r1 = [] then r1\<lparr>valid := True\<rparr> else r1)"
proof -
  have "validation_phase (library E) blob (new_report E blob)
        = (None, content, r1, BlobRead # map Lib calls)"
    using assms by (simp add: validation_phase_def)
  then show ?thesis
    by (rule process_completed(1))
qed

lemma process_returns: "raised (process_uploaded_file E blob s) = None"
proof -
  obtain x c r ev where
    vp: "validation_phase (library E) blob (new_report E blob) = (x, c, r, ev)"
    by (cases "validation_phase (library E) blob (new_report E blob)") auto
  show ?thesis
  proof (cases x)
    case None
    then show ?thesis using process_completed(2) [of E blob c r ev s] vp by simp
  next
    case (Some e)
    then show ?thesis using process_failed(2) [of E blob e c r ev s] vp by simp
  qed
qed


subsection \<open>The store after move_blob and save_validation_report\<close>






subsection \<open>Concrete runs\<close>



lemma big_json_ext: "extension (new_report E big_json) = ''json''"
  by (simp add: new_report_def Let_def big_json_def py_replace_def lower_def lower_char_def)
     code_simp

lemma wide_xlsx_ext: "extension (new_report E wide_xlsx) = ''xlsx''"
  by (simp add: new_report_def Let_def wide_xlsx_def py_replace_def lower_def lower_char_def)

section \<open>The claims\<close>



text \<open>
  C2, as amended. When the copy step of \<^verbatim>\<open>move_blob\<close> fails (the connection or the
  upload raises), nothing is written or deleted, so the source object is left
  untouched, and the exception is caught inside \<^verbatim>\<open>move_blob\<close>: it is logged at error
  level and not propagated. \<^verbatim>\<open>move_blob\<close> returns normally and so does the trigger
  function.
\<close>

theorem move_blob_copy_failure:
  assumes "\<not> no_connection E"
    and "fault E MoveConnect = Some e
         \<or> (fault E MoveConnect = None \<and> fault E MoveUpload = Some e)"
  shows "(\<exists>s' evs.
            move_blob E content path dest meta s
              = (None, s', evs @ [Log ERROR (MoveFailed (str_of e))])
            \<and> blobs s' = blobs s
            \<and> (\<forall>c n. Store (OpDelete c n) \<notin> set evs))
         \<and> raised (process_uploaded_file E blob st) = None"
proof -
  have "\<exists>s' evs.
            move_blob E content path dest meta s
              = (None, s', evs @ [Log ERROR (MoveFailed (str_of e))])
            \<and> blobs s' = blobs s
            \<and> (\<forall>c n. Store (OpDelete c n) \<notin> set evs)"
    using assms
    by (auto simp: move_blob_def move_blob_try_def Let_def split: option.splits)
  then show ?thesis
    by (simp add: process_returns)
qed

theorem move_blob_copy_failure_witness:
  "\<not> no_connection upload_fault_env
   \<and> fault upload_fault_env MoveConnect = None
   \<and> fault upload_fault_env MoveUpload = Some (Exn OtherException ''upload refused'')
   \<and> fst (move_blob upload_fault_env [0x68, 0x69] (stream_name notes_blob)
            STAGING_CONTAINER notes_report uploaded_store) = None
   \<and> blobs (fst (snd (move_blob upload_fault_env [0x68, 0x69] (stream_name notes_blob)
            STAGING_CONTAINER notes_report uploaded_store))) = blobs uploaded_store
   \<and> last (snd (snd (move_blob upload_fault_env [0x68, 0x69] (stream_name notes_blob)
            STAGING_CONTAINER notes_report uploaded_store)))
       = Log ERROR (MoveFailed ''upload refused'')
   \<and> raised (process_uploaded_file upload_fault_env notes_blob uploaded_store) = None"
proof -
  have h1: "\<not> no_connection upload_fault_env"
    by (simp add: upload_fault_env_def working_env_def no_connection_def)
  have f: "fault upload_fault_env MoveConnect = None"
    "fault upload_fault_env MoveUpload = Some (Exn OtherException ''upload refused'')"
    by (simp_all add: upload_fault_env_def)
  have h2: "fault upload_fault_env MoveConnect = Some (Exn OtherException ''upload refused'')
         \<or> (fault upload_fault_env MoveConnect = None
             \<and> fault upload_fault_env MoveUpload = Some (Exn OtherException ''upload refused''))"
    by (simp add: f)
  note T = move_blob_copy_failure
             [OF h1 h2, of "[0x68, 0x69]" "stream_name notes_blob" STAGING_CONTAINER
                notes_report uploaded_store notes_blob uploaded_store]
  then obtain s' evs where
    m: "move_blob upload_fault_env [0x68, 0x69] (stream_name notes_blob)
          STAGING_CONTAINER notes_report uploaded_store
        = (None, s', evs @ [Log ERROR (MoveFailed (str_of (Exn OtherException ''upload refused'')))])"
    and b: "blobs s' = blobs uploaded_store"
    by blast
  show ?thesis
    using T h1 f by (simp add: m b)
qed

text \<open>
  The claim as it was stated fails: with an upload that raises, \<^verbatim>\<open>move_blob\<close> returns
  without an exception after logging, the trigger function returns too, and the report
  it saves is marked valid although nothing reached \<^verbatim>\<open>staging\<close>.
\<close>

theorem copy_failure_not_propagated:
  "fault upload_fault_env MoveUpload = Some (Exn OtherException ''upload refused'')
   \<and> fst (move_blob upload_fault_env [0x68, 0x69]
            ''uploads-clientes/acme/2024/01/02/notes.txt'' ''staging''
            (notes_report\<lparr>valid := True\<rparr>) uploaded_store) = None
   \<and> snd (snd (move_blob upload_fault_env [0x68, 0x69]
            ''uploads-clientes/acme/2024/01/02/notes.txt'' ''staging''
            (notes_report\<lparr>valid := True\<rparr>) uploaded_store))
       = [Store OpConnect, Store (OpCreateContainer ''staging''),
          Store (OpUpload ''staging'' ''acme/2024/01/02/notes.txt''),
          Log ERROR (MoveFailed ''upload refused'')]
   \<and> raised (process_uploaded_file upload_fault_env notes_blob uploaded_store) = None
   \<and> valid (final_report (process_uploaded_file upload_fault_env notes_blob uploaded_store))
   \<and> saved_reports (trace (process_uploaded_file upload_fault_env notes_blob uploaded_store))
       = [notes_report\<lparr>valid := True, metadata := MetaTxt 1 2 ''utf-8''\<rparr>]
   \<and> blobs (final_store (process_uploaded_file upload_fault_env notes_blob uploaded_store))
        (''staging'', ''acme/2024/01/02/notes.txt'') = None"
  by code_simp

text \<open>
  C3. A workbook that opens and has more than 50 sheets gets exactly one error, which
  carries the ceiling and the sheet count; the validator returns at once: warnings and
  metadata are untouched and the only library call is the opening of the workbook, no
  sheet is read. The variant of \<^verbatim>\<open>src/azure-function/function_app.py\<close> does the same
  and returns no frame. In a run on an \<^verbatim>\<open>.xlsx\<close> or \<^verbatim>\<open>.xls\<close> blob the final report is
  the fresh report with that one error: its metadata is empty, no \<^verbatim>\<open>sheets_detail\<close>.
\<close>

theorem excel_sheet_ceiling:
  assumes "ExcelFile L content = Inr xls"
    and "length (sheet_names xls) > 50"
  shows "validate_excel L content result =
           (None,
            result\<lparr>errors := errors result
                     @ [ExcelTooManySheets 50 (length (sheet_names xls))]\<rparr>,
            [CallExcelFile])
         \<and> validate_excel_db L content result =
           ((result\<lparr>errors := errors result
                      @ [DbTooManySheets 50 (length (sheet_names xls))]\<rparr>, None),
            [CallExcelFile])
         \<and> (library E = L \<and> stream_read blob = Inr content
              \<and> (extension (new_report E blob) = ''xlsx'' \<or> extension (new_report E blob) = ''xls'')
              \<longrightarrow>
              final_report (process_uploaded_file E blob s)
                = (new_report E blob)
                    \<lparr>errors := [ExcelTooManySheets 50 (length (sheet_names xls))]\<rparr>)"
proof -
  have v: "validate_excel L content r =
           (None,
            r\<lparr>errors := errors r @ [ExcelTooManySheets 50 (length (sheet_names xls))]\<rparr>,
            [CallExcelFile])" for r
    using assms by (simp add: validate_excel_def VALIDATION_RULES_xlsx_def)
  have d: "validate_excel_db L content result =
           ((result\<lparr>errors := errors result
                      @ [DbTooManySheets 50 (length (sheet_names xls))]\<rparr>, None),
            [CallExcelFile])"
    using assms by (simp add: validate_excel_db_def VALIDATION_RULES_xlsx_def)
  have "final_report (process_uploaded_file E blob s)
          = (new_report E blob)\<lparr>errors := [ExcelTooManySheets 50 (length (sheet_names xls))]\<rparr>"
    if "library E = L" and rd: "stream_read blob = Inr content"
      and "extension (new_report E blob) = ''xlsx'' \<or> extension (new_report E blob) = ''xls''"
  proof -
    have "dispatch (library E) content (new_report E blob) =
            (None,
             (new_report E blob)\<lparr>errors := errors (new_report E blob)
                @ [ExcelTooManySheets 50 (length (sheet_names xls))]\<rparr>,
             [CallExcelFile])"
      using that v [of "new_report E blob"] by (auto simp: dispatch_def)
    from process_of_dispatch [OF rd this, of s] show ?thesis
      by (simp add: new_report_fields)
  qed
  then show ?thesis
    using v [of result] d by blast
qed

theorem excel_sheet_ceiling_witness:
  "ExcelFile (library workbook_env) [] = Inr wide_workbook
   \<and> length (sheet_names wide_workbook) > 50
   \<and> validate_excel (library workbook_env) [] fresh_report =
       (None, fresh_report\<lparr>errors := [ExcelTooManySheets 50 51]\<rparr>, [CallExcelFile])
   \<and> validate_excel_db (library workbook_env) [] fresh_report =
       ((fresh_report\<lparr>errors := [DbTooManySheets 50 51]\<rparr>, None), [CallExcelFile])
   \<and> stream_read wide_xlsx = Inr []
   \<and> extension (new_report workbook_env wide_xlsx) = ''xlsx''
   \<and> final_report (process_uploaded_file workbook_env wide_xlsx uploaded_store)
       = (new_report workbook_env wide_xlsx)\<lparr>errors := [ExcelTooManySheets 50 51]\<rparr>"
proof -
  have h1: "ExcelFile (library workbook_env) [] = Inr wide_workbook"
    by (simp add: workbook_env_def)
  have n: "length (sheet_names wide_workbook) = 51"
    by (simp add: wide_workbook_def)
  have h2: "length (sheet_names wide_workbook) > 50"
    by (simp add: n)
  have e: "errors fresh_report = []"
    by (simp add: fresh_report_def)
  have rd: "stream_read wide_xlsx = Inr []"
    by (simp add: wide_xlsx_def)
  note T = excel_sheet_ceiling
             [OF h1 h2, of fresh_report workbook_env wide_xlsx uploaded_store]
  have c1: "validate_excel (library workbook_env) [] fresh_report =
       (None, fresh_report\<lparr>errors := [ExcelTooManySheets 50 51]\<rparr>, [CallExcelFile])"
    using T by (simp add: n e)
  have c2: "validate_excel_db (library workbook_env) [] fresh_report =
       ((fresh_report\<lparr>errors := [DbTooManySheets 50 51]\<rparr>, None), [CallExcelFile])"
    using T by (simp add: n e)
  have c3: "final_report (process_uploaded_file workbook_env wide_xlsx uploaded_store)
       = (new_report workbook_env wide_xlsx)\<lparr>errors := [ExcelTooManySheets 50 51]\<rparr>"
    using T rd wide_xlsx_ext [of workbook_env] by (simp add: n)
  show ?thesis
    using h1 h2 c1 c2 c3 rd wide_xlsx_ext [of workbook_env] by simp
qed

text \<open>
  C4. For a workbook that opens with at most 50 sheets, every sheet is read, in order.
  A sheet that fails to read adds one warning and nothing to the counts; a readable
  sheet with more than 500 columns adds one error of its own; the total of the rows of
  the readable sheets is compared with 1048576 after the last sheet, its error comes
  last. \<^verbatim>\<open>sheets_detail\<close> holds exactly the readable sheets.
\<close>

theorem excel_per_sheet:
  assumes "ExcelFile L content = Inr xls"
    and "length (sheet_names xls) \<le> 50"
  shows "\<exists>info.
           validate_excel L content result =
             (None,
              result\<lparr>errors := errors result
                       @ concat (map (spec_sheet_column_error xls) (sheet_names xls))
                       @ (if spec_total_rows xls > 1048576
                          then [ExcelTooManyRows (spec_total_rows xls) 1048576] else []),
                     warnings := warnings result
                       @ concat (map (spec_sheet_warning xls) (sheet_names xls)),
                     metadata := MetaExcel (length (sheet_names xls)) (sheet_names xls)
                                   (spec_total_rows xls) info\<rparr>,
              CallExcelFile # map (\<lambda>s. CallReadExcel (ByName s)) (sheet_names xls))
           \<and> (\<forall>s. map_of info s =
                 (if s \<in> set (sheet_names xls) then spec_sheet_detail xls s else None))"
proof -
  obtain info where
    loop: "read_sheets VALIDATION_RULES_xlsx xls (sheet_names xls)
             (0, [], result, [CallExcelFile]) =
           (0 + sum_list (map (spec_sheet_rows xls) (sheet_names xls)), info,
            result\<lparr>errors := errors result
                     @ concat (map (spec_sheet_column_error xls) (sheet_names xls)),
                   warnings := warnings result
                     @ concat (map (spec_sheet_warning xls) (sheet_names xls))\<rparr>,
            [CallExcelFile] @ map (\<lambda>s. CallReadExcel (ByName s)) (sheet_names xls))"
    and detail: "\<forall>s. map_of info s =
           (if s \<in> set (sheet_names xls) \<and> spec_sheet_detail xls s \<noteq> None
            then spec_sheet_detail xls s else map_of [] s)"
    using read_sheets_acc [of xls "sheet_names xls" 0 "[]" result "[CallExcelFile]"]
    by blast
  have "validate_excel L content result =
          (None,
           result\<lparr>errors := errors result
                    @ concat (map (spec_sheet_column_error xls) (sheet_names xls))
                    @ (if spec_total_rows xls > 1048576
                       then [ExcelTooManyRows (spec_total_rows xls) 1048576] else []),
                  warnings := warnings result
                    @ concat (map (spec_sheet_warning xls) (sheet_names xls)),
                  metadata := MetaExcel (length (sheet_names xls)) (sheet_names xls)
                                (spec_total_rows xls) info\<rparr>,
           CallExcelFile # map (\<lambda>s. CallReadExcel (ByName s)) (sheet_names xls))"
    using assms loop
    by (simp add: validate_excel_def spec_total_rows_def VALIDATION_RULES_xlsx_def)
  moreover have "\<forall>s. map_of info s =
                 (if s \<in> set (sheet_names xls) then spec_sheet_detail xls s else None)"
    using detail by auto
  ultimately show ?thesis by blast
qed

theorem excel_per_sheet_witness:
  "ExcelFile (failing_lib\<lparr>ExcelFile := \<lambda>content. Inr mixed_workbook\<rparr>) [] = Inr mixed_workbook
   \<and> length (sheet_names mixed_workbook) \<le> 50
   \<and> errors (fst (snd (validate_excel
        (failing_lib\<lparr>ExcelFile := \<lambda>content. Inr mixed_workbook\<rparr>) [] fresh_report))) =
       [SheetTooManyColumns ''wide'' 500 501, ExcelTooManyRows 1048578 1048576]
   \<and> warnings (fst (snd (validate_excel
        (failing_lib\<lparr>ExcelFile := \<lambda>content. Inr mixed_workbook\<rparr>) [] fresh_report))) =
       [SheetReadError ''broken'' ''bad sheet'']
   \<and> snd (snd (validate_excel
        (failing_lib\<lparr>ExcelFile := \<lambda>content. Inr mixed_workbook\<rparr>) [] fresh_report)) =
       [CallExcelFile, CallReadExcel (ByName ''ok''), CallReadExcel (ByName ''broken''),
        CallReadExcel (ByName ''wide''), CallReadExcel (ByName ''more'')]"
proof -
  let ?L = "failing_lib\<lparr>ExcelFile := \<lambda>content. Inr mixed_workbook\<rparr>"
  have h1: "ExcelFile ?L [] = Inr mixed_workbook"
    by simp
  have h2: "length (sheet_names mixed_workbook) \<le> 50"
    by (simp add: mixed_workbook_def)
  have calls: "map (\<lambda>s. CallReadExcel (ByName s)) (sheet_names mixed_workbook) =
       [CallReadExcel (ByName ''ok''), CallReadExcel (ByName ''broken''),
        CallReadExcel (ByName ''wide''), CallReadExcel (ByName ''more'')]"
    by (simp add: mixed_workbook_def)
  have rows: "spec_total_rows mixed_workbook = 1048578"
    by (simp add: spec_total_rows_def spec_sheet_rows_def mixed_workbook_def)
  have cols: "concat (map (spec_sheet_column_error mixed_workbook) (sheet_names mixed_workbook))
              = [SheetTooManyColumns ''wide'' 500 501]"
    by (simp add: spec_sheet_column_error_def mixed_workbook_def)
  have warn: "concat (map (spec_sheet_warning mixed_workbook) (sheet_names mixed_workbook))
              = [SheetReadError ''broken'' ''bad sheet'']"
    by (simp add: spec_sheet_warning_def mixed_workbook_def)
  have e: "errors fresh_report = []" "warnings fresh_report = []"
    by (simp_all add: fresh_report_def)
  obtain info where
    "validate_excel ?L [] fresh_report =
       (None,
        fresh_report\<lparr>errors := errors fresh_report
                 @ concat (map (spec_sheet_column_error mixed_workbook) (sheet_names mixed_workbook))
                 @ (if spec_total_rows mixed_workbook > 1048576
                    then [ExcelTooManyRows (spec_total_rows mixed_workbook) 1048576] else []),
               warnings := warnings fresh_report
                 @ concat (map (spec_sheet_warning mixed_workbook) (sheet_names mixed_workbook)),
               metadata := MetaExcel (length (sheet_names mixed_workbook))
                             (sheet_names mixed_workbook)
                             (spec_total_rows mixed_workbook) info\<rparr>,
        CallExcelFile # map (\<lambda>s. CallReadExcel (ByName s)) (sheet_names mixed_workbook))"
    using excel_per_sheet [OF h1 h2, of fresh_report] by blast
  then show ?thesis
    using h1 h2 by (simp add: rows cols warn e calls)
qed

text \<open>
  C5. When an encoding is found and the full parse returns a frame, the validator
  returns, and the errors it appends are the row error (if the frame has more than
  10000000 rows) followed by the column error (if it has more than 500 columns): each
  check is made whatever the other found.
\<close>

theorem csv_limits_independent:
  assumes "detect_encoding L content (required_encoding VALIDATION_RULES_csv)
           = (Inr (Some enc), calls)"
    and "read_csv L content enc None = Inr df"
  shows "fst (validate_csv L content result) = None
         \<and> errors (fst (snd (validate_csv L content result))) =
             errors result
             @ (if length (cells df) > 10000000
                then [CsvTooManyRows 10000000 (length (cells df))] else [])
             @ (if length (columns df) > 500
                then [CsvTooManyColumns 500 (length (columns df))] else [])"
  by (simp add: validate_csv_parsed [OF assms])

theorem csv_limits_independent_witness:
  "detect_encoding latin1_lib [0xE9] (required_encoding VALIDATION_RULES_csv)
     = (Inr (Some ''latin-1''), [CallReadCsv ''utf-8'' (Some 5), CallReadCsv ''latin-1'' (Some 5)])
   \<and> read_csv latin1_lib [0xE9] ''latin-1'' None = Inr big_frame
   \<and> fst (validate_csv latin1_lib [0xE9] fresh_report) = None
   \<and> errors (fst (snd (validate_csv latin1_lib [0xE9] fresh_report))) =
       [CsvTooManyRows 10000000 10000001, CsvTooManyColumns 500 501]"
proof -
  have h1: "detect_encoding latin1_lib [0xE9] (required_encoding VALIDATION_RULES_csv)
     = (Inr (Some ''latin-1''), [CallReadCsv ''utf-8'' (Some 5), CallReadCsv ''latin-1'' (Some 5)])"
    by (simp add: latin1_lib_def VALIDATION_RULES_csv_def)
  have h2: "read_csv latin1_lib [0xE9] ''latin-1'' None = Inr big_frame"
    by (simp add: latin1_lib_def)
  have sz: "length (cells big_frame) = 10000001" "length (columns big_frame) = 501"
    by (simp_all add: big_frame_def)
  have e: "errors fresh_report = []"
    by (simp add: fresh_report_def)
  show ?thesis
    using csv_limits_independent [OF h1 h2, of fresh_report] h1 h2
    by (simp add: sz e)
qed

text \<open>
  C6. A JSON, parquet or plain-text payload longer than its ceiling (200, 500, 100 MB;
  one byte more is enough) gets exactly one error appended; the validator returns
  without an exception, leaves warnings and metadata as they were, and makes no decode
  or parse call. In a run on such a blob the final report has that one error, empty
  metadata, and is not valid.
\<close>

theorem oversize_rejected_before_decode:
  "(length content > 200 * 1048576 \<longrightarrow>
      validate_json L content result =
        (None, result\<lparr>errors := errors result @ [JsonTooLarge 200 (size_in_mb content)]\<rparr>, []))
   \<and> (length content > 500 * 1048576 \<longrightarrow>
      validate_parquet L content result =
        (None, result\<lparr>errors := errors result @ [ParquetTooLarge 500 (size_in_mb content)]\<rparr>, []))
   \<and> (length content > 100 * 1048576 \<longrightarrow>
      validate_txt content result =
        (None, result\<lparr>errors := errors result @ [TxtTooLarge 100 (size_in_mb content)]\<rparr>, []))
   \<and> (stream_read blob = Inr content \<and>
        (extension (new_report E blob) = ''json'' \<and> length content > 200 * 1048576
         \<or> extension (new_report E blob) = ''parquet'' \<and> length content > 500 * 1048576
         \<or> extension (new_report E blob) = ''txt'' \<and> length content > 100 * 1048576) \<longrightarrow>
        metadata (final_report (process_uploaded_file E blob s)) = MetaEmpty
        \<and> length (errors (final_report (process_uploaded_file E blob s))) = 1
        \<and> \<not> valid (final_report (process_uploaded_file E blob s)))"
proof -
  have v: "(length content > 200 * 1048576 \<longrightarrow>
      validate_json L content result =
        (None, result\<lparr>errors := errors result @ [JsonTooLarge 200 (size_in_mb content)]\<rparr>, []))
   \<and> (length content > 500 * 1048576 \<longrightarrow>
      validate_parquet L content result =
        (None, result\<lparr>errors := errors result @ [ParquetTooLarge 500 (size_in_mb content)]\<rparr>, []))
   \<and> (length content > 100 * 1048576 \<longrightarrow>
      validate_txt content result =
        (None, result\<lparr>errors := errors result @ [TxtTooLarge 100 (size_in_mb content)]\<rparr>, []))"
    for L result
    by (simp add: validate_json_def validate_parquet_def validate_txt_def
        VALIDATION_RULES_json_def VALIDATION_RULES_parquet_def VALIDATION_RULES_txt_def
        size_in_mb_gt_numeral)
  have r: "metadata (final_report (process_uploaded_file E blob s)) = MetaEmpty
        \<and> length (errors (final_report (process_uploaded_file E blob s))) = 1
        \<and> \<not> valid (final_report (process_uploaded_file E blob s))"
    if rd: "stream_read blob = Inr content"
      and d: "dispatch (library E) content (new_report E blob)
              = (None, (new_report E blob)\<lparr>errors := errors (new_report E blob) @ [m]\<rparr>, [])"
    for m
    by (simp add: process_of_dispatch [OF rd d] new_report_fields)
  have "metadata (final_report (process_uploaded_file E blob s)) = MetaEmpty
        \<and> length (errors (final_report (process_uploaded_file E blob s))) = 1
        \<and> \<not> valid (final_report (process_uploaded_file E blob s))"
    if rd: "stream_read blob = Inr content"
      and c: "extension (new_report E blob) = ''json'' \<and> length content > 200 * 1048576
         \<or> extension (new_report E blob) = ''parquet'' \<and> length content > 500 * 1048576
         \<or> extension (new_report E blob) = ''txt'' \<and> length content > 100 * 1048576"
    using c
  proof (elim disjE conjE)
    assume "extension (new_report E blob) = ''json''" "length content > 200 * 1048576"
    then show ?thesis
      using v [of "library E" "new_report E blob"]
      by (intro r [OF rd]) (simp add: dispatch_def)
  next
    assume "extension (new_report E blob) = ''parquet''" "length content > 500 * 1048576"
    then show ?thesis
      using v [of "library E" "new_report E blob"]
      by (intro r [OF rd]) (simp add: dispatch_def)
  next
    assume "extension (new_report E blob) = ''txt''" "length content > 100 * 1048576"
    then show ?thesis
      using v [of "library E" "new_report E blob"]
      by (intro r [OF rd]) (simp add: dispatch_def)
  qed
  then show ?thesis
    using v [of L result] by blast
qed

theorem oversize_rejected_before_decode_witness:
  "length (replicate 209715201 (0 :: byte)) > 200 * 1048576
   \<and> validate_json failing_lib (replicate 209715201 0) fresh_report =
       (None,
        fresh_report\<lparr>errors := [JsonTooLarge 200 (size_in_mb (replicate 209715201 0))]\<rparr>, [])
   \<and> length (replicate 524288001 (0 :: byte)) > 500 * 1048576
   \<and> validate_parquet failing_lib (replicate 524288001 0) fresh_report =
       (None,
        fresh_report\<lparr>errors := [ParquetTooLarge 500 (size_in_mb (replicate 524288001 0))]\<rparr>, [])
   \<and> length (replicate 104857601 (0 :: byte)) > 100 * 1048576
   \<and> validate_txt (replicate 104857601 0) fresh_report =
       (None,
        fresh_report\<lparr>errors := [TxtTooLarge 100 (size_in_mb (replicate 104857601 0))]\<rparr>, [])
   \<and> stream_read big_json = Inr (replicate 209715201 0)
   \<and> extension (new_report working_env big_json) = ''json''
   \<and> metadata (final_report (process_uploaded_file working_env big_json uploaded_store))
       = MetaEmpty
   \<and> length (errors (final_report (process_uploaded_file working_env big_json uploaded_store)))
       = 1
   \<and> \<not> valid (final_report (process_uploaded_file working_env big_json uploaded_store))"
proof -
  have e: "errors fresh_report = []"
    by (simp add: fresh_report_def)
  have rd: "stream_read big_json = Inr (replicate 209715201 0)"
    by (simp add: big_json_def)
  have big: "length (replicate 209715201 (0 :: byte)) > 200 * 1048576"
    by simp
  note T1 = oversize_rejected_before_decode
              [of "replicate 209715201 0" failing_lib fresh_report big_json working_env
                  uploaded_store]
  note T2 = oversize_rejected_before_decode
              [of "replicate 524288001 0" failing_lib fresh_report big_json working_env
                  uploaded_store]
  note T3 = oversize_rejected_before_decode
              [of "replicate 104857601 0" failing_lib fresh_report big_json working_env
                  uploaded_store]
  have c1: "validate_json failing_lib (replicate 209715201 0) fresh_report =
       (None,
        fresh_report\<lparr>errors := [JsonTooLarge 200 (size_in_mb (replicate 209715201 0))]\<rparr>, [])"
    using T1 by (simp add: e)
  have c2: "validate_parquet failing_lib (replicate 524288001 0) fresh_report =
       (None,
        fresh_report\<lparr>errors := [ParquetTooLarge 500 (size_in_mb (replicate 524288001 0))]\<rparr>, [])"
    using T2 by (simp add: e)
  have c3: "validate_txt (replicate 104857601 0) fresh_report =
       (None,
        fresh_report\<lparr>errors := [TxtTooLarge 100 (size_in_mb (replicate 104857601 0))]\<rparr>, [])"
    using T3 by (simp add: e)
  have c4: "metadata (final_report (process_uploaded_file working_env big_json uploaded_store))
       = MetaEmpty
   \<and> length (errors (final_report (process_uploaded_file working_env big_json uploaded_store)))
       = 1
   \<and> \<not> valid (final_report (process_uploaded_file working_env big_json uploaded_store))"
    using T1 rd big big_json_ext [of working_env] by simp
  show ?thesis
    using c1 c2 c3 c4 rd big_json_ext [of working_env] by simp
qed



text \<open>
  C8. The input \<^verbatim>\<open>a,a,b\\n1,2,3\\n\<close>: the reader hands \<^verbatim>\<open>validate_csv\<close> the labels
  \<^verbatim>\<open>a\<close>, \<^verbatim>\<open>a.1\<close>, \<^verbatim>\<open>b\<close>, so the duplicate check finds nothing: validation
  completes with one row and three columns in the metadata, no error, and no warning.
\<close>

theorem csv_repeated_header_no_warning:
  assumes "plain_table repeated_header_csv = Some df"
    and "read_csv L repeated_header_csv ''utf-8'' (Some 5) = Inr df"
    and "read_csv L repeated_header_csv ''utf-8'' None = Inr df"
  shows "validate_csv L repeated_header_csv result =
           (None,
            result\<lparr>metadata := MetaCsv ''utf-8'' 1 3 [''a'', ''a.1'', ''b'']
                                  (frame_dtypes L df) (null_percentage L df)
                                  (memory_usage_mb L df)\<rparr>,
            [CallReadCsv ''utf-8'' (Some 5), CallReadCsv ''utf-8'' None])"
proof -
  have df: "df = \<lparr>columns = [''a'', ''a.1'', ''b''],
                  cells = [[Some ''1'', Some ''2'', Some ''3'']]\<rparr>"
    using assms(1) by (simp add: plain_table_repeated_header)
  have d: "detect_encoding L repeated_header_csv (required_encoding VALIDATION_RULES_csv)
           = (Inr (Some ''utf-8''), [CallReadCsv ''utf-8'' (Some 5)])"
    using assms(2) by (simp add: VALIDATION_RULES_csv_def)
  have dup: "duplicated_cols df = []"
    by (simp add: df duplicated_cols_def)
  have emp: "empty_rows df = 0"
    by (simp add: df empty_rows_def)
  have sz: "length (cells df) = 1" "length (columns df) = 3" "take 50 (columns df) = columns df"
    by (simp_all add: df)
  show ?thesis
    unfolding validate_csv_parsed [OF d assms(3)]
    by (simp add: dup emp sz) (simp add: df)
qed

theorem csv_repeated_header_no_warning_witness:
  "plain_table repeated_header_csv =
     Some \<lparr>columns = [''a'', ''a.1'', ''b''], cells = [[Some ''1'', Some ''2'', Some ''3'']]\<rparr>
   \<and> validate_csv plain_lib repeated_header_csv fresh_report =
       (None,
        fresh_report\<lparr>metadata := MetaCsv ''utf-8'' 1 3 [''a'', ''a.1'', ''b'']
                        [(''a'', ''int64''), (''a.1'', ''int64''), (''b'', ''int64'')] 0 0\<rparr>,
        [CallReadCsv ''utf-8'' (Some 5), CallReadCsv ''utf-8'' None])
   \<and> warnings (fst (snd (validate_csv plain_lib repeated_header_csv fresh_report))) = []"
proof -
  let ?df = "\<lparr>columns = [''a'', ''a.1'', ''b''], cells = [[Some ''1'', Some ''2'', Some ''3'']]\<rparr>"
  have h1: "plain_table repeated_header_csv = Some ?df"
    by (rule plain_table_repeated_header)
  have h2: "read_csv plain_lib repeated_header_csv ''utf-8'' (Some 5) = Inr ?df"
    by (simp add: plain_lib_def h1)
  have h3: "read_csv plain_lib repeated_header_csv ''utf-8'' None = Inr ?df"
    by (simp add: plain_lib_def h1)
  have w: "warnings fresh_report = []"
    by (simp add: fresh_report_def)
  show ?thesis
    using csv_repeated_header_no_warning [OF h1 h2 h3, of fresh_report] h1
    by (simp add: plain_lib_def failing_lib_def w)
qed



text \<open>
  C10. A plain-text payload within the size ceiling that is not valid UTF-8 is decoded
  as latin-1; the metadata then records the encoding \<^verbatim>\<open>'utf-8'\<close> all the same, the
  line count is the number of bytes \<open>0x0A\<close> plus one and the character count is the
  number of bytes, as in the latin-1 text, and no error is added.
\<close>

theorem validate_txt_latin1_fallback:
  assumes "length content \<le> 100 * 1048576"
    and "utf8_points (map unat content) = None"
  shows "validate_txt content result =
           (None,
            result\<lparr>metadata :=
                     MetaTxt (count_list (map unat content) 10 + 1) (length content) ''utf-8''\<rparr>,
            [CallDecodeUtf8, CallDecodeLatin1])"
proof -
  have "\<not> size_in_mb content > of_nat (max_size_mb VALIDATION_RULES_txt)"
    using assms(1) by (simp add: size_in_mb_gt_numeral VALIDATION_RULES_txt_def)
  then show ?thesis
    using assms(2)
    by (simp add: validate_txt_def decode_utf8_def decode_latin1_def)
qed

theorem validate_txt_latin1_fallback_witness:
  "length [0x63, 0x61, 0x66, 0xE9, 0x0A, 0x6F :: byte] \<le> 100 * 1048576
   \<and> utf8_points (map unat [0x63, 0x61, 0x66, 0xE9, 0x0A, 0x6F :: byte]) = None
   \<and> validate_txt [0x63, 0x61, 0x66, 0xE9, 0x0A, 0x6F] fresh_report =
       (None, fresh_report\<lparr>metadata := MetaTxt 2 6 ''utf-8''\<rparr>,
        [CallDecodeUtf8, CallDecodeLatin1])"
proof -
  have h1: "length [0x63, 0x61, 0x66, 0xE9, 0x0A, 0x6F :: byte] \<le> 100 * 1048576"
    by simp
  have h2: "utf8_points (map unat [0x63, 0x61, 0x66, 0xE9, 0x0A, 0x6F :: byte]) = None"
    by (simp add: cont_byte_def)
  show ?thesis
    using h1 h2 validate_txt_latin1_fallback [OF h1 h2, of fresh_report] by simp
qed

end
